theory Spec2Isabelle
  imports Main "HOL-Library.Monad_Syntax" "HOL-Library.Multiset"
begin

section \<open>Book API: data model\<close>

text \<open>
  The repository holds two layers of code. \<^verbatim>\<open>starter/\<close> is the shipped code: the book
  router, the application wiring and five placeholder controllers. \<^verbatim>\<open>README.md\<close> gives,
  iteration by iteration, the implementation the starter is to be turned into: the book
  controllers, the user controllers, \<^verbatim>\<open>requireAuth\<close>, the models and the final router.
  Both layers are embedded here. The controllers of the starter carry the suffix
  \<open>_starter\<close>; the functions of the README keep their names.
\<close>

type_synonym oid = string

subsection \<open>Library values: signed tokens and password digests\<close>

text \<open>
  Modelled from the spec: \<^verbatim>\<open>jsonwebtoken\<close> is not part of the repository. A signed token
  is the symbolic value of what section 4.2 says it holds: the embedded user identifier,
  the time of issue and the absolute expiry (both in seconds), and the key it was signed
  with.
\<close>

datatype token = Token (tok_id: oid) (tok_iat: nat) (tok_exp: nat) (tok_key: string)

text \<open>
  Modelled from the spec: \<^verbatim>\<open>bcryptjs\<close> is not part of the repository. A digest is the
  symbolic value of section 4.1: the salt it embeds and the plaintext it was made from;
  it is never a plaintext.
\<close>

datatype digest = Bcrypt (digest_salt: string) (digest_plain: string)

text \<open>
  The value of the \<^verbatim>\<open>Authorization\<close> header is kept as the array of its space-separated
  segments, which is what \<^verbatim>\<open>authorization.split(" ")\<close> returns. A segment is the compact
  form of a signed token or any other text. The array has at least one segment; the empty
  header value is \<open>[Plain []]\<close>.
\<close>

datatype segment = Plain string | Compact token

subsection \<open>Documents (models/bookModel.js, models/userModel.js)\<close>

record availability =
  isAvailable :: "bool option"
  dueDate :: "string option"
  borrower :: "string option"

text \<open>A stored book: the paths of \<^verbatim>\<open>bookSchema\<close>, \<^verbatim>\<open>_id\<close> and the two timestamps.\<close>

record book =
  bid :: oid
  title :: string
  author :: string
  isbn :: string
  publisher :: string
  genre :: string
  availability :: availability
  user_id :: oid
  createdAt :: nat
  updatedAt :: nat

text \<open>
  \<^verbatim>\<open>req.body\<close> on the book routes, read at the paths of \<^verbatim>\<open>bookSchema\<close>, each at the type
  the schema gives it; \<open>None\<close> is a path the payload does not have.
\<close>

record book_body =
  body_title :: "string option"
  body_author :: "string option"
  body_isbn :: "string option"
  body_publisher :: "string option"
  body_genre :: "string option"
  body_availability :: "availability option"
  body_user_id :: "oid option"

record user =
  uid :: oid
  name :: string
  email :: string
  password :: digest
  phone_number :: string
  gender :: string
  date_of_birth :: string
  membership_status :: string
  user_createdAt :: nat
  user_updatedAt :: nat

text \<open>\<^verbatim>\<open>req.body\<close> of signup: seven fields, each absent (\<open>None\<close>) or a string.\<close>

record signup_body =
  su_name :: "string option"
  su_email :: "string option"
  su_password :: "string option"
  su_phone_number :: "string option"
  su_gender :: "string option"
  su_date_of_birth :: "string option"
  su_membership_status :: "string option"

text \<open>
  \<^verbatim>\<open>req.body\<close> of login. The email is a string: what the store driver does with an
  undefined filter value is not fixed by the source, so such requests are left out.
\<close>

record login_body =
  li_email :: string
  li_password :: "string option"

record db =
  users :: "user list"
  books :: "book list"

subsection \<open>Requests, responses and effects\<close>

datatype verb = GET | POST | PUT | DELETE

text \<open>The path below the router's mount point: \<^verbatim>\<open>/\<close>, \<^verbatim>\<open>/:bookId\<close>, anything else.\<close>

datatype path = Root | Id string | Other string

record 'b request =
  req_method :: verb
  path :: path
  authorization :: "segment list option"
  params_bookId :: string
  req_body :: 'b
  req_user :: "oid option"

text \<open>
  \<open>req_user\<close> is \<^verbatim>\<open>req.user\<close>: \<open>Some i\<close> for the object \<^verbatim>\<open>{_id: i}\<close>, \<open>None\<close> for
  \<^verbatim>\<open>undefined\<close> and for \<^verbatim>\<open>null\<close>, on both of which \<^verbatim>\<open>req.user._id\<close> throws.
\<close>

datatype json =
    Text string
  | Message string
  | Error string
  | BookJson book
  | BooksJson "book list"
  | Session string token
  | NoContent

record response =
  status :: nat
  body :: json

datatype store_call =
    FindBooks
  | FindBookById string
  | SaveBook book
  | FindOneAndUpdateBook string book_body
  | FindOneAndDeleteBook string
  | FindUserByEmail string
  | FindUserById oid
  | CreateUser user

text \<open>What a request did besides answering: the handlers it entered and its store calls.\<close>

datatype event = Handler string | Store store_call

record result =
  res :: response
  store :: db
  events :: "event list"

text \<open>
  Everything a run takes from outside the source: the signing secret of \<^verbatim>\<open>.env\<close>, the
  clock (milliseconds), the store library's identifier check
  \<^verbatim>\<open>mongoose.Types.ObjectId.isValid\<close>, the cast the store library applies to an
  identifier given as a string before it queries (\<open>None\<close>: the string cannot be cast and
  the call throws), the fresh identifier and salt the libraries draw,
  and for every store call whether the driver throws there (\<open>Some m\<close>: an error with
  message \<open>m\<close>).
\<close>

record env =
  SECRET :: string
  now :: nat
  isValid :: "string \<Rightarrow> bool"
  castObjectId :: "string \<Rightarrow> oid option"
  store_error :: "store_call \<Rightarrow> string option"
  new_ObjectId :: oid
  genSalt :: string

definition send :: "string \<Rightarrow> response" where
  "send s = \<lparr>status = 200, body = Text s\<rparr>"

definition respond :: "nat \<Rightarrow> json \<Rightarrow> response" where
  "respond code j = \<lparr>status = code, body = j\<rparr>"

section \<open>The shipped starter (starter/controllers/bookControllers.js)\<close>

definition getAllBooks_starter :: "'b request \<Rightarrow> db \<Rightarrow> result" where
  "getAllBooks_starter req d =
     \<lparr>res = send ''getAllBooks'', store = d, events = [Handler ''getAllBooks'']\<rparr>"

definition createBook_starter :: "'b request \<Rightarrow> db \<Rightarrow> result" where
  "createBook_starter req d =
     \<lparr>res = send ''createBook'', store = d, events = [Handler ''createBook'']\<rparr>"

definition getBookById_starter :: "'b request \<Rightarrow> db \<Rightarrow> result" where
  "getBookById_starter req d =
     \<lparr>res = send ''getBookById'', store = d, events = [Handler ''getBookById'']\<rparr>"

definition updateBook_starter :: "'b request \<Rightarrow> db \<Rightarrow> result" where
  "updateBook_starter req d =
     \<lparr>res = send ''updateBook'', store = d, events = [Handler ''updateBook'']\<rparr>"

definition deleteBook_starter :: "'b request \<Rightarrow> db \<Rightarrow> result" where
  "deleteBook_starter req d =
     \<lparr>res = send ''deleteBook'', store = d, events = [Handler ''deleteBook'']\<rparr>"

text \<open>
  Modelled from the spec: \<^verbatim>\<open>middleware/customMiddleware.js\<close> is not among the sources.
  Section 6 says that a route nobody handles gets a generic "unknown endpoint" 404.
\<close>

definition unknownEndpoint :: "db \<Rightarrow> event list \<Rightarrow> result" where
  "unknownEndpoint d evs =
     \<lparr>res = respond 404 (Error ''unknown endpoint''), store = d, events = evs\<rparr>"

text \<open>The starter's router (routes/bookRouter.js as shipped): no gate on any route.\<close>

definition bookRouter_starter :: "'b request \<Rightarrow> db \<Rightarrow> result" where
  "bookRouter_starter req d =
     (case (req_method req, path req) of
        (GET, Root) \<Rightarrow> getAllBooks_starter req d
      | (POST, Root) \<Rightarrow> createBook_starter req d
      | (GET, Id i) \<Rightarrow> getBookById_starter (req\<lparr>params_bookId := i\<rparr>) d
      | (PUT, Id i) \<Rightarrow> updateBook_starter (req\<lparr>params_bookId := i\<rparr>) d
      | (DELETE, Id i) \<Rightarrow> deleteBook_starter (req\<lparr>params_bookId := i\<rparr>) d
      | _ \<Rightarrow> unknownEndpoint d [])"

section \<open>Libraries the implementation calls\<close>

subsection \<open>jsonwebtoken\<close>

text \<open>
  Modelled from the spec: \<^verbatim>\<open>jwt.sign(payload, key, {expiresIn})\<close> of section 4.2. The
  token embeds the payload's identifier, is issued at the clock's second and expires
  \<open>expiresIn\<close> seconds later; it records the key that signed it.
\<close>

definition jwt_sign :: "oid \<Rightarrow> string \<Rightarrow> nat \<Rightarrow> nat \<Rightarrow> token" where
  "jwt_sign payload_id key expiresIn clock =
     Token payload_id (clock div 1000) (clock div 1000 + expiresIn) key"

text \<open>
  Modelled from the spec: \<^verbatim>\<open>jwt.verify(token, key)\<close> of section 4.2, \<open>None\<close> when it
  throws: no token given, a malformed one, a signature made with another key, or an
  expiry that the clock has reached. Otherwise the embedded identifier.
\<close>

fun jwt_verify :: "segment option \<Rightarrow> string \<Rightarrow> nat \<Rightarrow> oid option" where
  "jwt_verify None key clock = None"
| "jwt_verify (Some (Plain s)) key clock = None"
| "jwt_verify (Some (Compact tk)) key clock =
     (if tok_key tk = key \<and> clock div 1000 < tok_exp tk then Some (tok_id tk) else None)"

text \<open>The time span \<^verbatim>\<open>"3d"\<close>, in seconds.\<close>

definition expiresIn_3d :: nat where
  "expiresIn_3d = 3 * 24 * 60 * 60"

subsection \<open>bcryptjs\<close>

text \<open>Modelled from the spec: \<^verbatim>\<open>bcrypt.hash(password, salt)\<close> of section 4.1.\<close>

definition bcrypt_hash :: "string \<Rightarrow> string \<Rightarrow> digest" where
  "bcrypt_hash pw salt = Bcrypt salt pw"

text \<open>
  Modelled from the spec: \<^verbatim>\<open>bcrypt.compare(password, digest)\<close> of section 4.1. With
  no password (\<^verbatim>\<open>undefined\<close>) the library throws; \<open>Inl\<close> carries the error's message.
\<close>

fun bcrypt_compare :: "string option \<Rightarrow> digest \<Rightarrow> string + bool" where
  "bcrypt_compare None dg = Inl ''Illegal arguments: undefined, string''"
| "bcrypt_compare (Some pw) dg = Inr (pw = digest_plain dg)"

subsection \<open>The store (mongoose models Book and User)\<close>

text \<open>A store call throws where the environment says so; \<open>Inl\<close> carries the message.\<close>

definition throwing :: "env \<Rightarrow> store_call \<Rightarrow> 'a \<Rightarrow> string + 'a" where
  "throwing e c v = (case store_error e c of Some m \<Rightarrow> Inl m | None \<Rightarrow> Inr v)"

text \<open>
  Modelled from the spec: the store's \<^verbatim>\<open>sort({field: dir})\<close>. Direction \<open>1\<close> is
  ascending and \<open>-1\<close> descending on the field; documents with equal values keep the
  order the collection holds them in.
\<close>

definition sort_docs :: "('a \<Rightarrow> nat) \<Rightarrow> int \<Rightarrow> 'a list \<Rightarrow> 'a list" where
  "sort_docs field dir xs = sort_key (\<lambda>x. dir * int (field x)) xs"

text \<open>\<^verbatim>\<open>Book.find({}).sort({field: dir})\<close>\<close>

definition Book_find :: "env \<Rightarrow> db \<Rightarrow> (book \<Rightarrow> nat) \<Rightarrow> int \<Rightarrow> string + book list" where
  "Book_find e d field dir = throwing e FindBooks (sort_docs field dir (books d))"

text \<open>
  \<^verbatim>\<open>Book.findById(i)\<close>: the string is cast to an ObjectId, and the answer is the first
  document with that \<^verbatim>\<open>_id\<close>, or \<^verbatim>\<open>null\<close>. Two spellings of one identifier find the
  same document.
\<close>

definition Book_findById :: "env \<Rightarrow> db \<Rightarrow> string \<Rightarrow> string + book option" where
  "Book_findById e d i =
     (case castObjectId e i of
        None \<Rightarrow> Inl ''Cast to ObjectId failed''
      | Some c \<Rightarrow> throwing e (FindBookById i) (find (\<lambda>b. bid b = c) (books d)))"

text \<open>
  A path with \<^verbatim>\<open>required: true\<close>: a string path must be present and not empty.
\<close>

fun required_string :: "string option \<Rightarrow> string option" where
  "required_string None = None"
| "required_string (Some s) = (if s = [] then None else Some s)"

text \<open>
  \<^verbatim>\<open>new Book(obj)\<close> followed by the validation \<^verbatim>\<open>save()\<close> runs before it writes: the
  document with a fresh \<^verbatim>\<open>_id\<close> and both timestamps, or \<open>None\<close> when a required path
  of \<^verbatim>\<open>bookSchema\<close> is missing (\<^verbatim>\<open>save()\<close> then throws a validation error).
\<close>

definition new_Book :: "env \<Rightarrow> book_body \<Rightarrow> book option" where
  "new_Book e obj =
     do {
       t \<leftarrow> required_string (body_title obj);
       a \<leftarrow> required_string (body_author obj);
       i \<leftarrow> required_string (body_isbn obj);
       p \<leftarrow> required_string (body_publisher obj);
       g \<leftarrow> required_string (body_genre obj);
       av \<leftarrow> body_availability obj;
       _ \<leftarrow> isAvailable av;
       u \<leftarrow> body_user_id obj;
       Some \<lparr>bid = new_ObjectId e, title = t, author = a, isbn = i, publisher = p,
             genre = g, availability = av, user_id = u,
             createdAt = now e, updatedAt = now e\<rparr>
     }"

text \<open>The write of \<^verbatim>\<open>newBook.save()\<close>: the document joins the collection.\<close>

definition Book_save :: "env \<Rightarrow> db \<Rightarrow> book \<Rightarrow> string + db" where
  "Book_save e d b = throwing e (SaveBook b) (d\<lparr>books := books d @ [b]\<rparr>)"

fun or_else :: "'a option \<Rightarrow> 'a \<Rightarrow> 'a" where
  "or_else None d = d"
| "or_else (Some v) d = v"

text \<open>
  The update \<^verbatim>\<open>Book.findOneAndUpdate\<close> applies for an update document without
  operators, as here \<^verbatim>\<open>{ ...req.body }\<close>: the library sends it as \<^verbatim>\<open>$set\<close>. Each
  top-level path the payload has takes the payload's value, \<^verbatim>\<open>availability\<close> as a whole;
  a path the payload does not have keeps the stored value; \<^verbatim>\<open>updatedAt\<close> is set by the
  schema's \<^verbatim>\<open>timestamps\<close> option.
\<close>

definition set_paths :: "book_body \<Rightarrow> nat \<Rightarrow> book \<Rightarrow> book" where
  "set_paths upd clock b =
     b\<lparr>title := or_else (body_title upd) (title b),
       author := or_else (body_author upd) (author b),
       isbn := or_else (body_isbn upd) (isbn b),
       publisher := or_else (body_publisher upd) (publisher b),
       genre := or_else (body_genre upd) (genre b),
       availability := or_else (body_availability upd) (availability b),
       user_id := or_else (body_user_id upd) (user_id b),
       updatedAt := clock\<rparr>"

fun replace_first :: "oid \<Rightarrow> book \<Rightarrow> book list \<Rightarrow> book list" where
  "replace_first i b' [] = []"
| "replace_first i b' (b # bs) = (if bid b = i then b' # bs else b # replace_first i b' bs)"

fun remove_first :: "oid \<Rightarrow> book list \<Rightarrow> book list" where
  "remove_first i [] = []"
| "remove_first i (b # bs) = (if bid b = i then bs else b # remove_first i bs)"

text \<open>
  \<^verbatim>\<open>Book.findOneAndUpdate({_id: i}, upd, {returnDocument: "after"})\<close>: the document
  after the update, or \<^verbatim>\<open>null\<close> when no document has the \<^verbatim>\<open>_id\<close> the string is cast
  to.
\<close>

definition Book_findOneAndUpdate ::
  "env \<Rightarrow> db \<Rightarrow> string \<Rightarrow> book_body \<Rightarrow> string + (book option \<times> db)" where
  "Book_findOneAndUpdate e d i upd =
     (case castObjectId e i of
        None \<Rightarrow> Inl ''Cast to ObjectId failed''
      | Some c \<Rightarrow>
          throwing e (FindOneAndUpdateBook i upd)
            (case find (\<lambda>b. bid b = c) (books d) of
               None \<Rightarrow> (None, d)
             | Some b \<Rightarrow>
                 (let b' = set_paths upd (now e) b
                  in (Some b', d\<lparr>books := replace_first c b' (books d)\<rparr>))))"

text \<open>\<^verbatim>\<open>Book.findOneAndDelete({_id: i})\<close>: the deleted document, or \<^verbatim>\<open>null\<close>.\<close>

definition Book_findOneAndDelete ::
  "env \<Rightarrow> db \<Rightarrow> string \<Rightarrow> string + (book option \<times> db)" where
  "Book_findOneAndDelete e d i =
     (case castObjectId e i of
        None \<Rightarrow> Inl ''Cast to ObjectId failed''
      | Some c \<Rightarrow>
          throwing e (FindOneAndDeleteBook i)
            (case find (\<lambda>b. bid b = c) (books d) of
               None \<Rightarrow> (None, d)
             | Some b \<Rightarrow> (Some b, d\<lparr>books := remove_first c (books d)\<rparr>)))"

text \<open>\<^verbatim>\<open>User.findOne({email})\<close>\<close>

definition User_findOne_email :: "env \<Rightarrow> db \<Rightarrow> string \<Rightarrow> string + user option" where
  "User_findOne_email e d m =
     throwing e (FindUserByEmail m) (find (\<lambda>u. email u = m) (users d))"

text \<open>\<^verbatim>\<open>User.findOne({_id}).select("_id")\<close>: only the identifier of the user found.\<close>

definition User_findOne_id :: "env \<Rightarrow> db \<Rightarrow> oid \<Rightarrow> string + oid option" where
  "User_findOne_id e d i =
     throwing e (FindUserById i) (map_option uid (find (\<lambda>u. uid u = i) (users d)))"

text \<open>\<^verbatim>\<open>User.create(u)\<close>: the created document and the store holding it.\<close>

definition User_create :: "env \<Rightarrow> db \<Rightarrow> user \<Rightarrow> string + (user \<times> db)" where
  "User_create e d u = throwing e (CreateUser u) (u, d\<lparr>users := users d @ [u]\<rparr>)"

section \<open>The implementation of README.md\<close>

subsection \<open>controllers/userControllers.js\<close>

text \<open>
  README.md, step 6d (lines 742-746):
  \<^verbatim>\<open>jwt.sign({ _id }, process.env.SECRET, { expiresIn: "3d" })\<close>
\<close>

definition generateToken :: "env \<Rightarrow> oid \<Rightarrow> token" where
  "generateToken e i = jwt_sign i (SECRET e) expiresIn_3d (now e)"

text \<open>A destructured field that passes the test \<^verbatim>\<open>!field\<close>: present and not empty.\<close>

fun truthy :: "string option \<Rightarrow> string option" where
  "truthy None = None"
| "truthy (Some s) = (if s = [] then None else Some s)"

text \<open>
  \<^verbatim>\<open>signupUser\<close>, README.md lines 751-807. Every \<^verbatim>\<open>throw\<close> of the body and every
  error of the store end in the \<^verbatim>\<open>catch\<close>, which answers 400 with the error's message. \<^verbatim>\<open>User.create\<close> returns the created document,
  so the branch \<^verbatim>\<open>"Invalid user data"\<close> is not taken.
\<close>

definition signupUser :: "env \<Rightarrow> signup_body request \<Rightarrow> db \<Rightarrow> result" where
  "signupUser e req d =
     (case do {
             n \<leftarrow> truthy (su_name (req_body req));
             m \<leftarrow> truthy (su_email (req_body req));
             pw \<leftarrow> truthy (su_password (req_body req));
             ph \<leftarrow> truthy (su_phone_number (req_body req));
             g \<leftarrow> truthy (su_gender (req_body req));
             dob \<leftarrow> truthy (su_date_of_birth (req_body req));
             ms \<leftarrow> truthy (su_membership_status (req_body req));
             Some (n, m, pw, ph, g, dob, ms)
           } of
        None \<Rightarrow>
          \<lparr>res = respond 400 (Error ''Please add all fields''), store = d,
           events = [Handler ''signupUser'']\<rparr>
      | Some (n, m, pw, ph, g, dob, ms) \<Rightarrow>
          (case User_findOne_email e d m of
             Inl msg \<Rightarrow>
               \<lparr>res = respond 400 (Error msg), store = d,
                events = [Handler ''signupUser'', Store (FindUserByEmail m)]\<rparr>
           | Inr (Some userExists) \<Rightarrow>
               \<lparr>res = respond 400 (Error ''User already exists''), store = d,
                events = [Handler ''signupUser'', Store (FindUserByEmail m)]\<rparr>
           | Inr None \<Rightarrow>
               (let hashedPassword = bcrypt_hash pw (genSalt e);
                    u = \<lparr>uid = new_ObjectId e, name = n, email = m,
                         password = hashedPassword, phone_number = ph, gender = g,
                         date_of_birth = dob, membership_status = ms,
                         user_createdAt = now e, user_updatedAt = now e\<rparr>
                in case User_create e d u of
                     Inl msg \<Rightarrow>
                       \<lparr>res = respond 400 (Error msg), store = d,
                        events = [Handler ''signupUser'', Store (FindUserByEmail m),
                                  Store (CreateUser u)]\<rparr>
                   | Inr (created, d') \<Rightarrow>
                       \<lparr>res = respond 201 (Session m (generateToken e (uid created))),
                        store = d',
                        events = [Handler ''signupUser'', Store (FindUserByEmail m),
                                  Store (CreateUser u)]\<rparr>)))"

text \<open>
  \<^verbatim>\<open>loginUser\<close>, README.md lines 812-828. The condition
  \<^verbatim>\<open>user && (await bcrypt.compare(password, user.password))\<close> compares only when a user
  was found.
\<close>

definition loginUser :: "env \<Rightarrow> login_body request \<Rightarrow> db \<Rightarrow> result" where
  "loginUser e req d =
     (let m = li_email (req_body req); evs = [Handler ''loginUser'', Store (FindUserByEmail m)]
      in case User_findOne_email e d m of
           Inl msg \<Rightarrow> \<lparr>res = respond 400 (Error msg), store = d, events = evs\<rparr>
         | Inr None \<Rightarrow>
             \<lparr>res = respond 400 (Error ''Invalid credentials''), store = d, events = evs\<rparr>
         | Inr (Some u) \<Rightarrow>
             (case bcrypt_compare (li_password (req_body req)) (password u) of
                Inl msg \<Rightarrow> \<lparr>res = respond 400 (Error msg), store = d, events = evs\<rparr>
              | Inr True \<Rightarrow>
                  \<lparr>res = respond 200 (Session m (generateToken e (uid u))), store = d,
                   events = evs\<rparr>
              | Inr False \<Rightarrow>
                  \<lparr>res = respond 400 (Error ''Invalid credentials''), store = d,
                   events = evs\<rparr>))"

subsection \<open>middleware/requireAuth.js\<close>

text \<open>The gate answers itself (\<open>Rejected\<close>) or calls \<^verbatim>\<open>next()\<close> on the changed request.\<close>

datatype 'b gate = Rejected result | Next "'b request" "event list"

text \<open>\<^verbatim>\<open>xs[i]\<close>, \<^verbatim>\<open>undefined\<close> out of range.\<close>

definition at_index :: "'a list \<Rightarrow> nat \<Rightarrow> 'a option" where
  "at_index xs i = (if i < length xs then Some (xs ! i) else None)"

text \<open>
  \<^verbatim>\<open>requireAuth\<close>, README.md lines 1053-1074. \<^verbatim>\<open>!authorization\<close> holds for a request without the header and for an empty header
  value. The lookup's result is assigned to \<^verbatim>\<open>req.user\<close> as it is, \<^verbatim>\<open>null\<close> included,
  and \<^verbatim>\<open>next()\<close> follows; only a throw inside the \<^verbatim>\<open>try\<close> leads to the second 401.
\<close>

definition requireAuth :: "env \<Rightarrow> 'b request \<Rightarrow> db \<Rightarrow> 'b gate" where
  "requireAuth e req d =
     (case authorization req of
        None \<Rightarrow>
          Rejected \<lparr>res = respond 401 (Error ''Authorization token required''), store = d,
                    events = []\<rparr>
      | Some segs \<Rightarrow>
          if segs = [Plain []] then
            Rejected \<lparr>res = respond 401 (Error ''Authorization token required''), store = d,
                      events = []\<rparr>
          else
            (case jwt_verify (at_index segs 1) (SECRET e) (now e) of
               None \<Rightarrow>
                 Rejected \<lparr>res = respond 401 (Error ''Request is not authorized''),
                           store = d, events = []\<rparr>
             | Some i \<Rightarrow>
                 (case User_findOne_id e d i of
                    Inl msg \<Rightarrow>
                      Rejected \<lparr>res = respond 401 (Error ''Request is not authorized''),
                                store = d, events = [Store (FindUserById i)]\<rparr>
                  | Inr found \<Rightarrow> Next (req\<lparr>req_user := found\<rparr>) [Store (FindUserById i)])))"

subsection \<open>controllers/bookControllers.js\<close>

text \<open>\<^verbatim>\<open>getAllBooks\<close> of iteration 2, README.md lines 249-256.\<close>

definition getAllBooks :: "env \<Rightarrow> book_body request \<Rightarrow> db \<Rightarrow> result" where
  "getAllBooks e req d =
     (case Book_find e d createdAt (- 1) of
        Inr bs \<Rightarrow>
          \<lparr>res = respond 200 (BooksJson bs), store = d,
           events = [Handler ''getAllBooks'', Store FindBooks]\<rparr>
      | Inl msg \<Rightarrow>
          \<lparr>res = respond 500 (Message ''Failed to retrieve books''), store = d,
           events = [Handler ''getAllBooks'', Store FindBooks]\<rparr>)"

text \<open>
  \<^verbatim>\<open>createBook\<close> of iteration 7, README.md lines 1160-1173. \<^verbatim>\<open>req.user._id\<close> throws when \<^verbatim>\<open>req.user\<close> is
  \<^verbatim>\<open>null\<close>; in \<^verbatim>\<open>{ ...req.body, user_id }\<close> the key \<^verbatim>\<open>user_id\<close> comes last and wins.
\<close>

definition createBook :: "env \<Rightarrow> book_body request \<Rightarrow> db \<Rightarrow> result" where
  "createBook e req d =
     (case req_user req of
        None \<Rightarrow>
          \<lparr>res = respond 500 (Error ''Server Error''), store = d,
           events = [Handler ''createBook'']\<rparr>
      | Some caller \<Rightarrow>
          (case new_Book e ((req_body req)\<lparr>body_user_id := Some caller\<rparr>) of
             None \<Rightarrow>
               \<lparr>res = respond 500 (Error ''Server Error''), store = d,
                events = [Handler ''createBook'']\<rparr>
           | Some newBook \<Rightarrow>
               (case Book_save e d newBook of
                  Inl msg \<Rightarrow>
                    \<lparr>res = respond 500 (Error ''Server Error''), store = d,
                     events = [Handler ''createBook'', Store (SaveBook newBook)]\<rparr>
                | Inr d' \<Rightarrow>
                    \<lparr>res = respond 201 (BookJson newBook), store = d',
                     events = [Handler ''createBook'', Store (SaveBook newBook)]\<rparr>)))"

text \<open>
  \<^verbatim>\<open>getBookById\<close> of iteration 4 (README.md lines 367-384), \<^verbatim>\<open>updateBook\<close> of
  iteration 5 (lines 429-450) and \<^verbatim>\<open>deleteBook\<close> of iteration 3 (lines 304-321). Each
  returns on an identifier that fails \<^verbatim>\<open>ObjectId.isValid\<close> before its \<^verbatim>\<open>try\<close> block.
\<close>

definition getBookById :: "env \<Rightarrow> book_body request \<Rightarrow> db \<Rightarrow> result" where
  "getBookById e req d =
     (let bookId = params_bookId req
      in if \<not> isValid e bookId then
           \<lparr>res = respond 400 (Message ''Invalid book ID''), store = d,
            events = [Handler ''getBookById'']\<rparr>
         else
           (case Book_findById e d bookId of
              Inl msg \<Rightarrow>
                \<lparr>res = respond 500 (Message ''Failed to retrieve book''), store = d,
                 events = [Handler ''getBookById'', Store (FindBookById bookId)]\<rparr>
            | Inr (Some b) \<Rightarrow>
                \<lparr>res = respond 200 (BookJson b), store = d,
                 events = [Handler ''getBookById'', Store (FindBookById bookId)]\<rparr>
            | Inr None \<Rightarrow>
                \<lparr>res = respond 404 (Message ''Book not found''), store = d,
                 events = [Handler ''getBookById'', Store (FindBookById bookId)]\<rparr>))"

definition updateBook :: "env \<Rightarrow> book_body request \<Rightarrow> db \<Rightarrow> result" where
  "updateBook e req d =
     (let bookId = params_bookId req;
          evs = [Handler ''updateBook'', Store (FindOneAndUpdateBook bookId (req_body req))]
      in if \<not> isValid e bookId then
           \<lparr>res = respond 400 (Message ''Invalid book ID''), store = d,
            events = [Handler ''updateBook'']\<rparr>
         else
           (case Book_findOneAndUpdate e d bookId (req_body req) of
              Inl msg \<Rightarrow>
                \<lparr>res = respond 500 (Message ''Failed to update book''), store = d,
                 events = evs\<rparr>
            | Inr (Some updatedBook, d') \<Rightarrow>
                \<lparr>res = respond 200 (BookJson updatedBook), store = d', events = evs\<rparr>
            | Inr (None, d') \<Rightarrow>
                \<lparr>res = respond 404 (Message ''Book not found''), store = d',
                 events = evs\<rparr>))"

definition deleteBook :: "env \<Rightarrow> book_body request \<Rightarrow> db \<Rightarrow> result" where
  "deleteBook e req d =
     (let bookId = params_bookId req;
          evs = [Handler ''deleteBook'', Store (FindOneAndDeleteBook bookId)]
      in if \<not> isValid e bookId then
           \<lparr>res = respond 400 (Message ''Invalid book ID''), store = d,
            events = [Handler ''deleteBook'']\<rparr>
         else
           (case Book_findOneAndDelete e d bookId of
              Inl msg \<Rightarrow>
                \<lparr>res = respond 500 (Message ''Failed to delete book''), store = d,
                 events = evs\<rparr>
            | Inr (Some deletedBook, d') \<Rightarrow>
                \<lparr>res = respond 204 NoContent, store = d', events = evs\<rparr>
            | Inr (None, d') \<Rightarrow>
                \<lparr>res = respond 404 (Message ''Book not found''), store = d',
                 events = evs\<rparr>))"

subsection \<open>routes/bookRouter.js of iteration 7\<close>

text \<open>
  README.md lines 1200-1223. The two \<^verbatim>\<open>GET\<close> routes come first; \<^verbatim>\<open>router.use(requireAuth)\<close> stands before the
  other three, so every request that reaches it passes the gate or ends there.
\<close>

definition bookRouter :: "env \<Rightarrow> book_body request \<Rightarrow> db \<Rightarrow> result" where
  "bookRouter e req d =
     (case (req_method req, path req) of
        (GET, Root) \<Rightarrow> getAllBooks e req d
      | (GET, Id i) \<Rightarrow> getBookById e (req\<lparr>params_bookId := i\<rparr>) d
      | _ \<Rightarrow>
          (case requireAuth e req d of
             Rejected r \<Rightarrow> r
           | Next req' evs \<Rightarrow>
               (let r = (case (req_method req', path req') of
                           (POST, Root) \<Rightarrow> createBook e req' d
                         | (PUT, Id i) \<Rightarrow> updateBook e (req'\<lparr>params_bookId := i\<rparr>) d
                         | (DELETE, Id i) \<Rightarrow> deleteBook e (req'\<lparr>params_bookId := i\<rparr>) d
                         | _ \<Rightarrow> unknownEndpoint d [])
                in r\<lparr>events := evs @ events r\<rparr>)))"

section \<open>A concrete environment and store\<close>

text \<open>
  The identifiers of the store library: 24 hexadecimal digits in either case, which the
  cast brings to the lower-case form the store holds.
\<close>

definition hex_digit :: "char \<Rightarrow> bool" where
  "hex_digit c = (c \<in> set ''0123456789abcdefABCDEF'')"

definition lower_hex :: "char \<Rightarrow> char" where
  "lower_hex c =
     (if c = CHR ''A'' then CHR ''a'' else if c = CHR ''B'' then CHR ''b''
      else if c = CHR ''C'' then CHR ''c'' else if c = CHR ''D'' then CHR ''d''
      else if c = CHR ''E'' then CHR ''e'' else if c = CHR ''F'' then CHR ''f'' else c)"

definition hex24 :: "string \<Rightarrow> bool" where
  "hex24 s = (length s = 24 \<and> list_all hex_digit s)"

definition to_oid :: "string \<Rightarrow> oid option" where
  "to_oid s = (if hex24 s then Some (map lower_hex s) else None)"

text \<open>
  One user and three books, two of them created at the same time; a store that never
  fails; the identifier check and cast above.
\<close>

definition env0 :: env where
  "env0 = \<lparr>SECRET = ''f9d1e69365fa3f66'', now = 1700000000000,
           isValid = hex24, castObjectId = to_oid, store_error = (\<lambda>c. None),
           new_ObjectId = ''650000000000000000000009'', genSalt = ''salt''\<rparr>"

definition alice :: user where
  "alice = \<lparr>uid = ''650000000000000000000001'', name = ''John Doe'',
            email = ''john@example.com'', password = Bcrypt ''salt'' ''secret123'',
            phone_number = ''555-123-4567'', gender = ''Male'',
            date_of_birth = ''1990-01-15'', membership_status = ''Active'',
            user_createdAt = 1000, user_updatedAt = 1000\<rparr>"

definition in_stock :: availability where
  "in_stock = \<lparr>isAvailable = Some True, dueDate = None, borrower = Some []\<rparr>"

definition gatsby :: book where
  "gatsby = \<lparr>bid = ''65000000000000000000000a'', title = ''The Great Gatsby'',
             author = ''F. Scott Fitzgerald'', isbn = ''978-0743273565'',
             publisher = ''Scribner'', genre = ''Fiction'', availability = in_stock,
             user_id = ''650000000000000000000001'', createdAt = 1000, updatedAt = 1000\<rparr>"

definition dune :: book where
  "dune = \<lparr>bid = ''65000000000000000000000b'', title = ''Dune'',
           author = ''Frank Herbert'', isbn = ''978-0441172719'',
           publisher = ''Ace'', genre = ''Science Fiction'', availability = in_stock,
           user_id = ''650000000000000000000001'', createdAt = 3000, updatedAt = 3000\<rparr>"

definition emma :: book where
  "emma = \<lparr>bid = ''65000000000000000000000c'', title = ''Emma'',
           author = ''Jane Austen'', isbn = ''978-0141439587'',
           publisher = ''Penguin'', genre = ''Fiction'', availability = in_stock,
           user_id = ''650000000000000000000001'', createdAt = 3000, updatedAt = 3000\<rparr>"

definition db0 :: db where
  "db0 = \<lparr>users = [alice], books = [gatsby, dune, emma]\<rparr>"

definition no_fields :: book_body where
  "no_fields = \<lparr>body_title = None, body_author = None, body_isbn = None,
                body_publisher = None, body_genre = None, body_availability = None,
                body_user_id = None\<rparr>"

definition request0 :: "book_body request" where
  "request0 = \<lparr>req_method = GET, path = Root, authorization = None, params_bookId = [],
               req_body = no_fields, req_user = None\<rparr>"

text \<open>The routes that \<^verbatim>\<open>bookRouter.js\<close> of iteration 7 declares after the gate.\<close>

fun protected_route :: "verb \<Rightarrow> path \<Rightarrow> bool" where
  "protected_route POST Root = True"
| "protected_route PUT (Id i) = True"
| "protected_route DELETE (Id i) = True"
| "protected_route m p = False"

text \<open>A token signed with the secret of \<open>env0\<close> for an identifier no stored user has.\<close>

definition ghost :: oid where
  "ghost = ''650000000000000000000002''"

definition ghost_token :: token where
  "ghost_token = generateToken env0 ghost"

text \<open>A token issued to the stored user, and a create request that names another owner.\<close>

definition alice_token :: token where
  "alice_token = generateToken env0 ''650000000000000000000001''"

definition hobbit_fields :: book_body where
  "hobbit_fields = \<lparr>body_title = Some ''The Hobbit'', body_author = Some ''J. R. R. Tolkien'',
                    body_isbn = Some ''978-0547928227'', body_publisher = Some ''Mariner'',
                    body_genre = Some ''Fantasy'', body_availability = Some in_stock,
                    body_user_id = Some ghost\<rparr>"

definition hobbit :: book where
  "hobbit = \<lparr>bid = ''650000000000000000000009'', title = ''The Hobbit'',
             author = ''J. R. R. Tolkien'', isbn = ''978-0547928227'',
             publisher = ''Mariner'', genre = ''Fantasy'', availability = in_stock,
             user_id = ''650000000000000000000001'',
             createdAt = 1700000000000, updatedAt = 1700000000000\<rparr>"

definition create0 :: "book_body request" where
  "create0 = \<lparr>req_method = POST, path = Root,
              authorization = Some [Plain ''Bearer'', Compact alice_token],
              params_bookId = [], req_body = hobbit_fields, req_user = None\<rparr>"

text \<open>A request with the stored user's token, for the routes behind the gate.\<close>

definition authed :: "verb \<Rightarrow> string \<Rightarrow> book_body request" where
  "authed v p = \<lparr>req_method = v, path = Id p,
                 authorization = Some [Plain ''Bearer'', Compact alice_token],
                 params_bookId = [], req_body = no_fields, req_user = None\<rparr>"

text \<open>Two update requests for the first book: a new title only, a new availability only.\<close>

definition retitle :: "book_body request" where
  "retitle = \<lparr>req_method = PUT, path = Id ''65000000000000000000000a'', authorization = None,
              params_bookId = ''65000000000000000000000a'',
              req_body = no_fields\<lparr>body_title := Some ''Gatsby''\<rparr>, req_user = None\<rparr>"

definition lend :: "book_body request" where
  "lend = \<lparr>req_method = PUT, path = Id ''65000000000000000000000a'', authorization = None,
           params_bookId = ''65000000000000000000000a'',
           req_body = no_fields\<lparr>body_availability :=
             Some \<lparr>isAvailable = Some False, dueDate = Some ''2026-03-15'', borrower = None\<rparr>\<rparr>,
           req_user = None\<rparr>"

text \<open>The signup and login requests of the README's test section.\<close>

definition john_signup :: signup_body where
  "john_signup = \<lparr>su_name = Some ''John Doe'', su_email = Some ''john@example.com'',
                  su_password = Some ''secret123'', su_phone_number = Some ''555-123-4567'',
                  su_gender = Some ''Male'', su_date_of_birth = Some ''1990-01-15'',
                  su_membership_status = Some ''Active''\<rparr>"

definition signup0 :: "signup_body request" where
  "signup0 = \<lparr>req_method = POST, path = Other ''signup'', authorization = None,
              params_bookId = [], req_body = john_signup, req_user = None\<rparr>"

definition login0 :: "login_body request" where
  "login0 = \<lparr>req_method = POST, path = Other ''login'', authorization = None,
             params_bookId = [],
             req_body = \<lparr>li_email = ''john@example.com'', li_password = Some ''secret123''\<rparr>,
             req_user = None\<rparr>"

lemmas fixtures = hex_digit_def lower_hex_def hex24_def to_oid_def env0_def alice_def in_stock_def gatsby_def dune_def emma_def db0_def
  no_fields_def request0_def

section \<open>The starter's controllers\<close>

text \<open>
  C10. In the shipped source each of the five book controllers is a constant function:
  whatever the request (path parameters, body, headers) and whatever the store holds, it
  answers with status 200 and the fixed text that names the handler, leaves the store as
  it is and makes no store call.
\<close>

theorem starter_controllers_constant:
  "getAllBooks_starter r1 d =
     \<lparr>res = \<lparr>status = 200, body = Text ''getAllBooks''\<rparr>, store = d,
      events = [Handler ''getAllBooks'']\<rparr>
   \<and> getBookById_starter r2 d =
     \<lparr>res = \<lparr>status = 200, body = Text ''getBookById''\<rparr>, store = d,
      events = [Handler ''getBookById'']\<rparr>
   \<and> createBook_starter r3 d =
     \<lparr>res = \<lparr>status = 200, body = Text ''createBook''\<rparr>, store = d,
      events = [Handler ''createBook'']\<rparr>
   \<and> updateBook_starter r4 d =
     \<lparr>res = \<lparr>status = 200, body = Text ''updateBook''\<rparr>, store = d,
      events = [Handler ''updateBook'']\<rparr>
   \<and> deleteBook_starter r5 d =
     \<lparr>res = \<lparr>status = 200, body = Text ''deleteBook''\<rparr>, store = d,
      events = [Handler ''deleteBook'']\<rparr>"
  by (simp add: getAllBooks_starter_def getBookById_starter_def createBook_starter_def
      updateBook_starter_def deleteBook_starter_def send_def)

section \<open>Listing\<close>

lemma sort_docs_desc:
  "sorted_wrt (\<lambda>a b. field b \<le> field a) (sort_docs field (- 1) xs)"
proof -
  have "sorted (map (\<lambda>x. - 1 * int (field x)) (sort_key (\<lambda>x. - 1 * int (field x)) xs))"
    by (rule sorted_sort_key)
  then show ?thesis
    by (simp add: sort_docs_def sorted_map)
qed

lemma sort_docs_mset: "mset (sort_docs field dir xs) = mset xs"
  by (simp add: sort_docs_def)

lemma sort_docs_stable:
  "filter (\<lambda>x. field x = t) (sort_docs field (- 1) xs) = filter (\<lambda>x. field x = t) xs"
proof -
  have "filter (\<lambda>y. - 1 * int (field y) = - 1 * int t) (sort_key (\<lambda>x. - 1 * int (field x)) xs)
      = filter (\<lambda>y. - 1 * int (field y) = - 1 * int t) xs"
    by (rule sort_key_stable)
  then show ?thesis by (simp add: sort_docs_def)
qed

text \<open>
  C2. When the store answers, \<^verbatim>\<open>getAllBooks\<close> responds 200 with a list that holds
  exactly the stored books, newest creation time first; books created at the same time
  come in the order the collection holds them. The store is left as it is.
\<close>

theorem getAllBooks_newest_first:
  assumes "store_error e FindBooks = None"
  shows "\<exists>bs. res (getAllBooks e req d) = \<lparr>status = 200, body = BooksJson bs\<rparr>
           \<and> store (getAllBooks e req d) = d
           \<and> mset bs = mset (books d)
           \<and> sorted_wrt (\<lambda>a b. createdAt a \<ge> createdAt b) bs
           \<and> (\<forall>t. filter (\<lambda>b. createdAt b = t) bs = filter (\<lambda>b. createdAt b = t) (books d))"
  using assms
  by (simp add: getAllBooks_def Book_find_def throwing_def respond_def
      sort_docs_desc sort_docs_mset sort_docs_stable)

theorem getAllBooks_newest_first_witness:
  "store_error env0 FindBooks = None
   \<and> (\<exists>bs. res (getAllBooks env0 request0 db0) = \<lparr>status = 200, body = BooksJson bs\<rparr>
           \<and> store (getAllBooks env0 request0 db0) = db0
           \<and> mset bs = mset (books db0)
           \<and> sorted_wrt (\<lambda>a b. createdAt a \<ge> createdAt b) bs
           \<and> (\<forall>t. filter (\<lambda>b. createdAt b = t) bs = filter (\<lambda>b. createdAt b = t) (books db0)))"
proof -
  have h: "store_error env0 FindBooks = None" by (simp add: env0_def)
  from getAllBooks_newest_first [OF h, of request0 db0] h show ?thesis by blast
qed

lemma getAllBooks_run:
  "res (getAllBooks env0 request0 db0) =
     \<lparr>status = 200, body = BooksJson [dune, emma, gatsby]\<rparr>"
  by (simp add: getAllBooks_def Book_find_def throwing_def respond_def sort_docs_def fixtures)

section \<open>Operations on one book: identifier checks\<close>

lemma find_None_bid: "i \<notin> bid ` set bs \<Longrightarrow> find (\<lambda>b. bid b = i) bs = None"
  by (auto simp: find_None_iff)

lemma requireAuth_Next_request:
  "requireAuth e r d = Next n evs \<Longrightarrow> \<exists>u. n = r\<lparr>req_user := u\<rparr>"
  by (auto simp: requireAuth_def split: option.splits if_splits sum.splits)

lemma getBookById_invalid:
  "\<not> isValid e (params_bookId r) \<Longrightarrow>
   getBookById e r d =
     \<lparr>res = respond 400 (Message ''Invalid book ID''), store = d,
      events = [Handler ''getBookById'']\<rparr>"
  by (simp add: getBookById_def)

lemma updateBook_invalid:
  "\<not> isValid e (params_bookId r) \<Longrightarrow>
   updateBook e r d =
     \<lparr>res = respond 400 (Message ''Invalid book ID''), store = d,
      events = [Handler ''updateBook'']\<rparr>"
  by (simp add: updateBook_def)

lemma deleteBook_invalid:
  "\<not> isValid e (params_bookId r) \<Longrightarrow>
   deleteBook e r d =
     \<lparr>res = respond 400 (Message ''Invalid book ID''), store = d,
      events = [Handler ''deleteBook'']\<rparr>"
  by (simp add: deleteBook_def)

lemma getBookById_absent:
  assumes "isValid e (params_bookId r)" and "castObjectId e (params_bookId r) = Some i"
      and "i \<notin> bid ` set (books d)"
      and "store_error e (FindBookById (params_bookId r)) = None"
  shows "getBookById e r d =
     \<lparr>res = respond 404 (Message ''Book not found''), store = d,
      events = [Handler ''getBookById'', Store (FindBookById (params_bookId r))]\<rparr>"
  using assms by (simp add: getBookById_def Book_findById_def throwing_def find_None_bid)

lemma updateBook_absent:
  assumes "isValid e (params_bookId r)" and "castObjectId e (params_bookId r) = Some i"
      and "i \<notin> bid ` set (books d)"
      and "store_error e (FindOneAndUpdateBook (params_bookId r) (req_body r)) = None"
  shows "updateBook e r d =
     \<lparr>res = respond 404 (Message ''Book not found''), store = d,
      events = [Handler ''updateBook'',
                Store (FindOneAndUpdateBook (params_bookId r) (req_body r))]\<rparr>"
  using assms
  by (simp add: updateBook_def Let_def Book_findOneAndUpdate_def throwing_def find_None_bid)

lemma deleteBook_absent:
  assumes "isValid e (params_bookId r)" and "castObjectId e (params_bookId r) = Some i"
      and "i \<notin> bid ` set (books d)"
      and "store_error e (FindOneAndDeleteBook (params_bookId r)) = None"
  shows "deleteBook e r d =
     \<lparr>res = respond 404 (Message ''Book not found''), store = d,
      events = [Handler ''deleteBook'', Store (FindOneAndDeleteBook (params_bookId r))]\<rparr>"
  using assms
  by (simp add: deleteBook_def Let_def Book_findOneAndDelete_def throwing_def find_None_bid)

lemma bookRouter_get_id:
  "req_method r = GET \<Longrightarrow> path r = Id i \<Longrightarrow>
   bookRouter e r d = getBookById e (r\<lparr>params_bookId := i\<rparr>) d"
  by (simp add: bookRouter_def)

lemma bookRouter_put_id:
  assumes "req_method r = PUT" and "path r = Id i" and "requireAuth e r d = Next n evs"
  shows "bookRouter e r d =
     (updateBook e (n\<lparr>params_bookId := i\<rparr>) d)
       \<lparr>events := evs @ events (updateBook e (n\<lparr>params_bookId := i\<rparr>) d)\<rparr>"
proof -
  from requireAuth_Next_request [OF assms(3)] obtain u where "n = r\<lparr>req_user := u\<rparr>" ..
  with assms show ?thesis
    by (simp add: bookRouter_def Let_def)
qed

lemma bookRouter_delete_id:
  assumes "req_method r = DELETE" and "path r = Id i" and "requireAuth e r d = Next n evs"
  shows "bookRouter e r d =
     (deleteBook e (n\<lparr>params_bookId := i\<rparr>) d)
       \<lparr>events := evs @ events (deleteBook e (n\<lparr>params_bookId := i\<rparr>) d)\<rparr>"
proof -
  from requireAuth_Next_request [OF assms(3)] obtain u where "n = r\<lparr>req_user := u\<rparr>" ..
  with assms show ?thesis
    by (simp add: bookRouter_def Let_def)
qed

text \<open>
  C3, as the code has it. On the router of iteration 7, for a path identifier that fails
  the store library's identifier check: \<^verbatim>\<open>GET /:bookId\<close> is answered 400 and makes no
  store call at all; \<^verbatim>\<open>PUT /:bookId\<close> and \<^verbatim>\<open>DELETE /:bookId\<close>, once the gate has let
  the request through, are answered 400 and the handler makes no store call (the events
  are the gate's own, then the handler's entry). For an identifier that passes the check
  and whose ObjectId no stored book has, with a store call that does not fail, the same
  three requests are answered 404 and the store is left as it is.
\<close>

theorem invalid_id_400_absent_404:
  "(req_method r1 = GET \<and> path r1 = Id bad \<and> \<not> isValid e bad \<longrightarrow>
      bookRouter e r1 d =
        \<lparr>res = respond 400 (Message ''Invalid book ID''), store = d,
         events = [Handler ''getBookById'']\<rparr>)
   \<and> (req_method r2 = PUT \<and> path r2 = Id bad \<and> \<not> isValid e bad
        \<and> requireAuth e r2 d = Next n2 evs2 \<longrightarrow>
      bookRouter e r2 d =
        \<lparr>res = respond 400 (Message ''Invalid book ID''), store = d,
         events = evs2 @ [Handler ''updateBook'']\<rparr>)
   \<and> (req_method r3 = DELETE \<and> path r3 = Id bad \<and> \<not> isValid e bad
        \<and> requireAuth e r3 d = Next n3 evs3 \<longrightarrow>
      bookRouter e r3 d =
        \<lparr>res = respond 400 (Message ''Invalid book ID''), store = d,
         events = evs3 @ [Handler ''deleteBook'']\<rparr>)
   \<and> (req_method r4 = GET \<and> path r4 = Id i \<and> isValid e i \<and> castObjectId e i = Some c
        \<and> c \<notin> bid ` set (books d) \<and> store_error e (FindBookById i) = None \<longrightarrow>
      res (bookRouter e r4 d) = respond 404 (Message ''Book not found'')
      \<and> store (bookRouter e r4 d) = d)
   \<and> (req_method r5 = PUT \<and> path r5 = Id i \<and> isValid e i \<and> castObjectId e i = Some c
        \<and> c \<notin> bid ` set (books d) \<and> requireAuth e r5 d = Next n5 evs5
        \<and> store_error e (FindOneAndUpdateBook i (req_body r5)) = None \<longrightarrow>
      res (bookRouter e r5 d) = respond 404 (Message ''Book not found'')
      \<and> store (bookRouter e r5 d) = d)
   \<and> (req_method r6 = DELETE \<and> path r6 = Id i \<and> isValid e i \<and> castObjectId e i = Some c
        \<and> c \<notin> bid ` set (books d) \<and> requireAuth e r6 d = Next n6 evs6
        \<and> store_error e (FindOneAndDeleteBook i) = None \<longrightarrow>
      res (bookRouter e r6 d) = respond 404 (Message ''Book not found'')
      \<and> store (bookRouter e r6 d) = d)"
proof (intro conjI impI)
  assume "req_method r1 = GET \<and> path r1 = Id bad \<and> \<not> isValid e bad"
  then show "bookRouter e r1 d =
        \<lparr>res = respond 400 (Message ''Invalid book ID''), store = d,
         events = [Handler ''getBookById'']\<rparr>"
    by (simp add: bookRouter_get_id getBookById_invalid)
next
  assume h: "req_method r2 = PUT \<and> path r2 = Id bad \<and> \<not> isValid e bad
        \<and> requireAuth e r2 d = Next n2 evs2"
  then have "bookRouter e r2 d =
     (updateBook e (n2\<lparr>params_bookId := bad\<rparr>) d)
       \<lparr>events := evs2 @ events (updateBook e (n2\<lparr>params_bookId := bad\<rparr>) d)\<rparr>"
    by (simp add: bookRouter_put_id)
  with h show "bookRouter e r2 d =
        \<lparr>res = respond 400 (Message ''Invalid book ID''), store = d,
         events = evs2 @ [Handler ''updateBook'']\<rparr>"
    by (simp add: updateBook_invalid)
next
  assume h: "req_method r3 = DELETE \<and> path r3 = Id bad \<and> \<not> isValid e bad
        \<and> requireAuth e r3 d = Next n3 evs3"
  then have "bookRouter e r3 d =
     (deleteBook e (n3\<lparr>params_bookId := bad\<rparr>) d)
       \<lparr>events := evs3 @ events (deleteBook e (n3\<lparr>params_bookId := bad\<rparr>) d)\<rparr>"
    by (simp add: bookRouter_delete_id)
  with h show "bookRouter e r3 d =
        \<lparr>res = respond 400 (Message ''Invalid book ID''), store = d,
         events = evs3 @ [Handler ''deleteBook'']\<rparr>"
    by (simp add: deleteBook_invalid)
next
  assume h: "req_method r4 = GET \<and> path r4 = Id i \<and> isValid e i \<and> castObjectId e i = Some c
        \<and> c \<notin> bid ` set (books d) \<and> store_error e (FindBookById i) = None"
  then have eq: "bookRouter e r4 d =
      \<lparr>res = respond 404 (Message ''Book not found''), store = d,
       events = [Handler ''getBookById'', Store (FindBookById i)]\<rparr>"
    by (simp add: bookRouter_get_id getBookById_absent [where i = c])
  show "res (bookRouter e r4 d) = respond 404 (Message ''Book not found'')"
    and "store (bookRouter e r4 d) = d"
    by (simp_all add: eq)
next
  assume h: "req_method r5 = PUT \<and> path r5 = Id i \<and> isValid e i \<and> castObjectId e i = Some c
        \<and> c \<notin> bid ` set (books d) \<and> requireAuth e r5 d = Next n5 evs5
        \<and> store_error e (FindOneAndUpdateBook i (req_body r5)) = None"
  then obtain u where n: "n5 = r5\<lparr>req_user := u\<rparr>"
    using requireAuth_Next_request by blast
  from h have "bookRouter e r5 d =
     (updateBook e (n5\<lparr>params_bookId := i\<rparr>) d)
       \<lparr>events := evs5 @ events (updateBook e (n5\<lparr>params_bookId := i\<rparr>) d)\<rparr>"
    by (simp add: bookRouter_put_id)
  with h n have eq: "bookRouter e r5 d =
      \<lparr>res = respond 404 (Message ''Book not found''), store = d,
       events = evs5 @ [Handler ''updateBook'', Store (FindOneAndUpdateBook i (req_body r5))]\<rparr>"
    by (simp add: updateBook_absent [where i = c])
  show "res (bookRouter e r5 d) = respond 404 (Message ''Book not found'')"
    and "store (bookRouter e r5 d) = d"
    by (simp_all add: eq)
next
  assume h: "req_method r6 = DELETE \<and> path r6 = Id i \<and> isValid e i \<and> castObjectId e i = Some c
        \<and> c \<notin> bid ` set (books d) \<and> requireAuth e r6 d = Next n6 evs6
        \<and> store_error e (FindOneAndDeleteBook i) = None"
  then have "bookRouter e r6 d =
     (deleteBook e (n6\<lparr>params_bookId := i\<rparr>) d)
       \<lparr>events := evs6 @ events (deleteBook e (n6\<lparr>params_bookId := i\<rparr>) d)\<rparr>"
    by (simp add: bookRouter_delete_id)
  with h have eq: "bookRouter e r6 d =
      \<lparr>res = respond 404 (Message ''Book not found''), store = d,
       events = evs6 @ [Handler ''deleteBook'', Store (FindOneAndDeleteBook i)]\<rparr>"
    by (simp add: deleteBook_absent [where i = c])
  show "res (bookRouter e r6 d) = respond 404 (Message ''Book not found'')"
    and "store (bookRouter e r6 d) = d"
    by (simp_all add: eq)
qed

lemma authed_passes_gate:
  "requireAuth env0 (authed v p) db0 =
     Next ((authed v p)\<lparr>req_user := Some ''650000000000000000000001''\<rparr>)
          [Store (FindUserById ''650000000000000000000001'')]"
  by (simp add: requireAuth_def authed_def at_index_def alice_token_def generateToken_def
      jwt_sign_def expiresIn_3d_def User_findOne_id_def throwing_def env0_def db0_def alice_def)

theorem invalid_id_400_absent_404_witness:
  "\<not> isValid env0 ''42''
   \<and> bookRouter env0 (request0\<lparr>path := Id ''42''\<rparr>) db0 =
        \<lparr>res = respond 400 (Message ''Invalid book ID''), store = db0,
         events = [Handler ''getBookById'']\<rparr>
   \<and> bookRouter env0 (authed PUT ''42'') db0 =
        \<lparr>res = respond 400 (Message ''Invalid book ID''), store = db0,
         events = [Store (FindUserById ''650000000000000000000001'')] @ [Handler ''updateBook'']\<rparr>
   \<and> bookRouter env0 (authed DELETE ''42'') db0 =
        \<lparr>res = respond 400 (Message ''Invalid book ID''), store = db0,
         events = [Store (FindUserById ''650000000000000000000001'')] @ [Handler ''deleteBook'']\<rparr>
   \<and> isValid env0 ''65000000000000000000000F''
   \<and> castObjectId env0 ''65000000000000000000000F'' = Some ''65000000000000000000000f''
   \<and> ''65000000000000000000000f'' \<notin> bid ` set (books db0)
   \<and> res (bookRouter env0 (request0\<lparr>path := Id ''65000000000000000000000F''\<rparr>) db0)
       = respond 404 (Message ''Book not found'')
   \<and> res (bookRouter env0 (authed PUT ''65000000000000000000000F'') db0)
       = respond 404 (Message ''Book not found'')
   \<and> res (bookRouter env0 (authed DELETE ''65000000000000000000000F'') db0)
       = respond 404 (Message ''Book not found'')
   \<and> store (bookRouter env0 (authed DELETE ''65000000000000000000000F'') db0) = db0"
proof -
  have bad: "\<not> isValid env0 ''42''"
    by (simp add: env0_def hex24_def)
  have ok: "isValid env0 ''65000000000000000000000F''"
    and cast: "castObjectId env0 ''65000000000000000000000F'' = Some ''65000000000000000000000f''"
    by (simp_all add: env0_def to_oid_def hex24_def hex_digit_def lower_hex_def)
  have absent: "''65000000000000000000000f'' \<notin> bid ` set (books db0)"
    by (simp add: db0_def gatsby_def dune_def emma_def)
  have quiet: "\<And>c. store_error env0 c = None"
    by (simp add: env0_def)
  have shape:
    "req_method (request0\<lparr>path := Id ''42''\<rparr>) = GET"
    "path (request0\<lparr>path := Id ''42''\<rparr>) = Id ''42''"
    "req_method (request0\<lparr>path := Id ''65000000000000000000000F''\<rparr>) = GET"
    "path (request0\<lparr>path := Id ''65000000000000000000000F''\<rparr>) = Id ''65000000000000000000000F''"
    "\<And>v p. req_method (authed v p) = v" "\<And>v p. path (authed v p) = Id p"
    by (simp_all add: request0_def authed_def)
  from invalid_id_400_absent_404
    [of "request0\<lparr>path := Id ''42''\<rparr>" "''42''" env0 db0
        "authed PUT ''42''" _ _ "authed DELETE ''42''" _ _
        "request0\<lparr>path := Id ''65000000000000000000000F''\<rparr>" "''65000000000000000000000F''"
        "''65000000000000000000000f''"
        "authed PUT ''65000000000000000000000F''" _ _
        "authed DELETE ''65000000000000000000000F''" _ _]
    bad ok cast absent quiet shape authed_passes_gate
  show ?thesis
    by simp
qed

text \<open>
  At the level of requests the 400 is not what every malformed identifier gets, nor is it
  always the first thing that happens: an update without a token is answered 401, and a
  delete with a token has looked the user up in the store before the handler answers.
\<close>

theorem invalid_id_request_counterexample:
  "\<not> isValid env0 ''42''
   \<and> res (bookRouter env0 (request0\<lparr>req_method := PUT, path := Id ''42''\<rparr>) db0)
       = respond 401 (Error ''Authorization token required'')
   \<and> status (res (bookRouter env0 (request0\<lparr>req_method := PUT, path := Id ''42''\<rparr>) db0)) \<noteq> 400
   \<and> res (bookRouter env0 (authed DELETE ''42'') db0) = respond 400 (Message ''Invalid book ID'')
   \<and> events (bookRouter env0 (authed DELETE ''42'') db0)
       = [Store (FindUserById ''650000000000000000000001''), Handler ''deleteBook'']"
proof -
  have bad: "\<not> isValid env0 ''42''"
    by (simp add: env0_def hex24_def)
  have put: "bookRouter env0 (request0\<lparr>req_method := PUT, path := Id ''42''\<rparr>) db0 =
      \<lparr>res = respond 401 (Error ''Authorization token required''), store = db0, events = []\<rparr>"
    by (simp add: bookRouter_def requireAuth_def request0_def)
  have "bookRouter env0 (authed DELETE ''42'') db0 =
     (deleteBook env0 ((authed DELETE ''42'')\<lparr>req_user := Some ''650000000000000000000001'',
                                              params_bookId := ''42''\<rparr>) db0)
       \<lparr>events := [Store (FindUserById ''650000000000000000000001'')]
          @ events (deleteBook env0
              ((authed DELETE ''42'')\<lparr>req_user := Some ''650000000000000000000001'',
                                       params_bookId := ''42''\<rparr>) db0)\<rparr>"
    using bookRouter_delete_id [OF _ _ authed_passes_gate, of DELETE "''42''" "''42''"]
    by (simp add: authed_def)
  with bad have del: "bookRouter env0 (authed DELETE ''42'') db0 =
      \<lparr>res = respond 400 (Message ''Invalid book ID''), store = db0,
       events = [Store (FindUserById ''650000000000000000000001''), Handler ''deleteBook'']\<rparr>"
    by (simp add: deleteBook_invalid)
  show ?thesis
    by (simp add: bad put del respond_def)
qed

text \<open>
  The store library compares identifiers, not spellings: the upper-case spelling of a
  stored identifier finds the book.
\<close>

lemma getBookById_upper_case_run:
  "res (bookRouter env0 (request0\<lparr>path := Id ''65000000000000000000000A''\<rparr>) db0)
     = respond 200 (BookJson gatsby)"
  by (simp add: bookRouter_def getBookById_def Book_findById_def throwing_def fixtures)

section \<open>Signup and login\<close>

lemma truthy_None_iff: "truthy v = None \<longleftrightarrow> v = None \<or> v = Some []"
  by (cases v) auto

lemma truthy_Some_iff: "truthy v = Some s \<longleftrightarrow> v = Some s \<and> s \<noteq> []"
  by (cases v) auto

lemma find_email_None: "m \<notin> email ` set us \<Longrightarrow> find (\<lambda>u. email u = m) us = None"
  by (auto simp: find_None_iff)

lemma find_email_Some: "m \<in> email ` set us \<Longrightarrow> \<exists>u. find (\<lambda>u. email u = m) us = Some u"
  by (cases "find (\<lambda>u. email u = m) us") (auto simp: find_None_iff)

lemma signupUser_missing:
  assumes "\<exists>v \<in> {su_name (req_body r), su_email (req_body r), su_password (req_body r),
                  su_phone_number (req_body r), su_gender (req_body r),
                  su_date_of_birth (req_body r), su_membership_status (req_body r)}.
             v = None \<or> v = Some []"
  shows "signupUser e r d =
           \<lparr>res = respond 400 (Error ''Please add all fields''), store = d,
            events = [Handler ''signupUser'']\<rparr>"
proof -
  from assms have "truthy (su_name (req_body r)) = None \<or> truthy (su_email (req_body r)) = None
      \<or> truthy (su_password (req_body r)) = None \<or> truthy (su_phone_number (req_body r)) = None
      \<or> truthy (su_gender (req_body r)) = None \<or> truthy (su_date_of_birth (req_body r)) = None
      \<or> truthy (su_membership_status (req_body r)) = None"
    by (auto simp: truthy_None_iff)
  then show ?thesis
    by (auto simp: signupUser_def split: Option.bind_splits)
qed

lemma signupUser_present:
  assumes "su_name (req_body r) = Some n" "n \<noteq> []"
      and "su_email (req_body r) = Some m" "m \<noteq> []"
      and "su_password (req_body r) = Some pw" "pw \<noteq> []"
      and "su_phone_number (req_body r) = Some ph" "ph \<noteq> []"
      and "su_gender (req_body r) = Some g" "g \<noteq> []"
      and "su_date_of_birth (req_body r) = Some dob" "dob \<noteq> []"
      and "su_membership_status (req_body r) = Some ms" "ms \<noteq> []"
  shows "signupUser e r d =
     (case User_findOne_email e d m of
             Inl msg \<Rightarrow>
               \<lparr>res = respond 400 (Error msg), store = d,
                events = [Handler ''signupUser'', Store (FindUserByEmail m)]\<rparr>
           | Inr (Some userExists) \<Rightarrow>
               \<lparr>res = respond 400 (Error ''User already exists''), store = d,
                events = [Handler ''signupUser'', Store (FindUserByEmail m)]\<rparr>
           | Inr None \<Rightarrow>
               (let hashedPassword = bcrypt_hash pw (genSalt e);
                    u = \<lparr>uid = new_ObjectId e, name = n, email = m,
                         password = hashedPassword, phone_number = ph, gender = g,
                         date_of_birth = dob, membership_status = ms,
                         user_createdAt = now e, user_updatedAt = now e\<rparr>
                in case User_create e d u of
                     Inl msg \<Rightarrow>
                       \<lparr>res = respond 400 (Error msg), store = d,
                        events = [Handler ''signupUser'', Store (FindUserByEmail m),
                                  Store (CreateUser u)]\<rparr>
                   | Inr (created, d') \<Rightarrow>
                       \<lparr>res = respond 201 (Session m (generateToken e (uid created))),
                        store = d',
                        events = [Handler ''signupUser'', Store (FindUserByEmail m),
                                  Store (CreateUser u)]\<rparr>))"
  using assms by (simp add: signupUser_def)

text \<open>
  C4. \<^verbatim>\<open>signupUser\<close> answers 400 with "Please add all fields" when one of the seven
  fields is absent or empty, whoever is stored. With all seven present it answers 400
  with "User already exists" when a stored user has the submitted email. With all seven
  present, no stored user with that email and a store that does not fail, it adds one
  user, whose password is the digest of the submitted one under the drawn salt, and
  answers 201 with the email and a token for the new user's identifier.
\<close>

theorem signup_validates_then_creates:
  "((\<exists>v \<in> {su_name (req_body ra), su_email (req_body ra), su_password (req_body ra),
            su_phone_number (req_body ra), su_gender (req_body ra),
            su_date_of_birth (req_body ra), su_membership_status (req_body ra)}.
        v = None \<or> v = Some []) \<longrightarrow>
      signupUser e ra d =
        \<lparr>res = respond 400 (Error ''Please add all fields''), store = d,
         events = [Handler ''signupUser'']\<rparr>)
   \<and> (req_body rb =
         \<lparr>su_name = Some n, su_email = Some m, su_password = Some pw,
          su_phone_number = Some ph, su_gender = Some g, su_date_of_birth = Some dob,
          su_membership_status = Some ms\<rparr>
       \<and> [] \<notin> {n, m, pw, ph, g, dob, ms}
       \<and> store_error e (FindUserByEmail m) = None
       \<and> m \<in> email ` set (users d) \<longrightarrow>
      res (signupUser e rb d) = respond 400 (Error ''User already exists'')
      \<and> store (signupUser e rb d) = d)
   \<and> (req_body rc =
         \<lparr>su_name = Some n', su_email = Some m', su_password = Some pw',
          su_phone_number = Some ph', su_gender = Some g', su_date_of_birth = Some dob',
          su_membership_status = Some ms'\<rparr>
       \<and> [] \<notin> {n', m', pw', ph', g', dob', ms'}
       \<and> store_error e (FindUserByEmail m') = None
       \<and> (\<forall>u. store_error e (CreateUser u) = None)
       \<and> m' \<notin> email ` set (users d) \<longrightarrow>
      res (signupUser e rc d) = respond 201 (Session m' (generateToken e (new_ObjectId e)))
      \<and> (\<exists>u. users (store (signupUser e rc d)) = users d @ [u]
             \<and> uid u = new_ObjectId e \<and> email u = m'
             \<and> password u = bcrypt_hash pw' (genSalt e))
      \<and> books (store (signupUser e rc d)) = books d)"
proof (intro conjI impI)
  assume "\<exists>v \<in> {su_name (req_body ra), su_email (req_body ra), su_password (req_body ra),
            su_phone_number (req_body ra), su_gender (req_body ra),
            su_date_of_birth (req_body ra), su_membership_status (req_body ra)}.
        v = None \<or> v = Some []"
  then show "signupUser e ra d =
        \<lparr>res = respond 400 (Error ''Please add all fields''), store = d,
         events = [Handler ''signupUser'']\<rparr>"
    by (rule signupUser_missing)
next
  assume h: "req_body rb =
         \<lparr>su_name = Some n, su_email = Some m, su_password = Some pw,
          su_phone_number = Some ph, su_gender = Some g, su_date_of_birth = Some dob,
          su_membership_status = Some ms\<rparr>
       \<and> [] \<notin> {n, m, pw, ph, g, dob, ms}
       \<and> store_error e (FindUserByEmail m) = None
       \<and> m \<in> email ` set (users d)"
  then obtain u where u: "find (\<lambda>u. email u = m) (users d) = Some u"
    using find_email_Some by blast
  have eq: "signupUser e rb d =
      \<lparr>res = respond 400 (Error ''User already exists''), store = d,
       events = [Handler ''signupUser'', Store (FindUserByEmail m)]\<rparr>"
    using h u
    by (subst signupUser_present [where n = n and m = m and pw = pw and ph = ph and g = g
          and dob = dob and ms = ms])
       (auto simp: User_findOne_email_def throwing_def)
  show "res (signupUser e rb d) = respond 400 (Error ''User already exists'')"
    and "store (signupUser e rb d) = d"
    by (simp_all add: eq)
next
  assume h: "req_body rc =
         \<lparr>su_name = Some n', su_email = Some m', su_password = Some pw',
          su_phone_number = Some ph', su_gender = Some g', su_date_of_birth = Some dob',
          su_membership_status = Some ms'\<rparr>
       \<and> [] \<notin> {n', m', pw', ph', g', dob', ms'}
       \<and> store_error e (FindUserByEmail m') = None
       \<and> (\<forall>u. store_error e (CreateUser u) = None)
       \<and> m' \<notin> email ` set (users d)"
  then have none: "find (\<lambda>u. email u = m') (users d) = None"
    using find_email_None by blast
  define u where "u = \<lparr>uid = new_ObjectId e, name = n', email = m',
                         password = bcrypt_hash pw' (genSalt e), phone_number = ph', gender = g',
                         date_of_birth = dob', membership_status = ms',
                         user_createdAt = now e, user_updatedAt = now e\<rparr>"
  have eq: "signupUser e rc d =
      \<lparr>res = respond 201 (Session m' (generateToken e (new_ObjectId e))),
       store = d\<lparr>users := users d @ [u]\<rparr>,
       events = [Handler ''signupUser'', Store (FindUserByEmail m'), Store (CreateUser u)]\<rparr>"
    using h none
    by (subst signupUser_present [where n = n' and m = m' and pw = pw' and ph = ph' and g = g'
          and dob = dob' and ms = ms'])
       (auto simp: User_findOne_email_def User_create_def throwing_def Let_def u_def)
  show "res (signupUser e rc d) = respond 201 (Session m' (generateToken e (new_ObjectId e)))"
    and "books (store (signupUser e rc d)) = books d"
    by (simp_all add: eq)
  show "\<exists>u. users (store (signupUser e rc d)) = users d @ [u]
             \<and> uid u = new_ObjectId e \<and> email u = m'
             \<and> password u = bcrypt_hash pw' (genSalt e)"
    by (rule exI [of _ u]) (simp add: eq u_def)
qed

theorem signup_validates_then_creates_witness:
  "signupUser env0 (signup0\<lparr>req_body := john_signup\<lparr>su_gender := Some []\<rparr>\<rparr>) db0 =
        \<lparr>res = respond 400 (Error ''Please add all fields''), store = db0,
         events = [Handler ''signupUser'']\<rparr>
   \<and> ''john@example.com'' \<in> email ` set (users db0)
   \<and> res (signupUser env0 signup0 db0) = respond 400 (Error ''User already exists'')
   \<and> store (signupUser env0 signup0 db0) = db0
   \<and> ''jane@example.com'' \<notin> email ` set (users db0)
   \<and> res (signupUser env0 (signup0\<lparr>req_body := john_signup\<lparr>su_email := Some ''jane@example.com''\<rparr>\<rparr>) db0)
       = respond 201 (Session ''jane@example.com'' (generateToken env0 (new_ObjectId env0)))
   \<and> (\<exists>u. users (store (signupUser env0 (signup0\<lparr>req_body := john_signup\<lparr>su_email := Some ''jane@example.com''\<rparr>\<rparr>) db0))
            = users db0 @ [u]
          \<and> uid u = new_ObjectId env0 \<and> email u = ''jane@example.com''
          \<and> password u = bcrypt_hash ''secret123'' (genSalt env0))"
  using signup_validates_then_creates
    [of "signup0\<lparr>req_body := john_signup\<lparr>su_gender := Some []\<rparr>\<rparr>" env0 db0
        signup0 "''John Doe''" "''john@example.com''" "''secret123''" "''555-123-4567''"
        "''Male''" "''1990-01-15''" "''Active''"
        "signup0\<lparr>req_body := john_signup\<lparr>su_email := Some ''jane@example.com''\<rparr>\<rparr>"
        "''John Doe''" "''jane@example.com''" "''secret123''" "''555-123-4567''"
        "''Male''" "''1990-01-15''" "''Active''"]
  by (simp add: signup0_def john_signup_def env0_def db0_def alice_def)

text \<open>
  When the second attempt carries a password and the comparison with the stored digest
  returns false, a login whose email no stored user has and a login whose email belongs
  to a stored user get the same response: status 400 with "Invalid credentials". Neither
  changes the store.
\<close>

theorem login_failures_indistinguishable:
  assumes "li_email (req_body r1) \<notin> email ` set (users d)"
      and "store_error e (FindUserByEmail (li_email (req_body r1))) = None"
      and "find (\<lambda>u. email u = li_email (req_body r2)) (users d) = Some u"
      and "store_error e (FindUserByEmail (li_email (req_body r2))) = None"
      and "bcrypt_compare (li_password (req_body r2)) (password u) = Inr False"
  shows "res (loginUser e r1 d) = res (loginUser e r2 d)
         \<and> res (loginUser e r1 d) = respond 400 (Error ''Invalid credentials'')
         \<and> store (loginUser e r1 d) = d \<and> store (loginUser e r2 d) = d"
  using assms
  by (simp add: loginUser_def Let_def User_findOne_email_def throwing_def find_email_None)

theorem login_failures_indistinguishable_witness:
  "''nobody@example.com'' \<notin> email ` set (users db0)
   \<and> find (\<lambda>u. email u = ''john@example.com'') (users db0) = Some alice
   \<and> bcrypt_compare (Some ''wrongpassword'') (password alice) = Inr False
   \<and> res (loginUser env0 (login0\<lparr>req_body := \<lparr>li_email = ''nobody@example.com'', li_password = Some ''secret123''\<rparr>\<rparr>) db0)
     = res (loginUser env0 (login0\<lparr>req_body := \<lparr>li_email = ''john@example.com'', li_password = Some ''wrongpassword''\<rparr>\<rparr>) db0)
   \<and> res (loginUser env0 (login0\<lparr>req_body := \<lparr>li_email = ''nobody@example.com'', li_password = Some ''secret123''\<rparr>\<rparr>) db0)
     = respond 400 (Error ''Invalid credentials'')"
proof -
  have a: "li_email (req_body (login0\<lparr>req_body := \<lparr>li_email = ''nobody@example.com'', li_password = Some ''secret123''\<rparr>\<rparr>))
             \<notin> email ` set (users db0)"
    by (simp add: db0_def alice_def)
  have b: "store_error env0 (FindUserByEmail (li_email (req_body (login0\<lparr>req_body := \<lparr>li_email = ''nobody@example.com'', li_password = Some ''secret123''\<rparr>\<rparr>)))) = None"
    by (simp add: env0_def)
  have c: "find (\<lambda>u. email u = li_email (req_body (login0\<lparr>req_body := \<lparr>li_email = ''john@example.com'', li_password = Some ''wrongpassword''\<rparr>\<rparr>))) (users db0) = Some alice"
    by (simp add: db0_def alice_def)
  have d: "store_error env0 (FindUserByEmail (li_email (req_body (login0\<lparr>req_body := \<lparr>li_email = ''john@example.com'', li_password = Some ''wrongpassword''\<rparr>\<rparr>)))) = None"
    by (simp add: env0_def)
  have e: "bcrypt_compare (li_password (req_body (login0\<lparr>req_body := \<lparr>li_email = ''john@example.com'', li_password = Some ''wrongpassword''\<rparr>\<rparr>))) (password alice) = Inr False"
    by (simp add: alice_def)
  have f: "''nobody@example.com'' \<notin> email ` set (users db0)"
    by (simp add: db0_def alice_def)
  have g: "find (\<lambda>u. email u = ''john@example.com'') (users db0) = Some alice"
    by (simp add: db0_def alice_def)
  have h: "bcrypt_compare (Some ''wrongpassword'') (password alice) = Inr False"
    by (simp add: alice_def)
  from login_failures_indistinguishable [OF a b c d e] f g h show ?thesis
    by blast
qed

text \<open>The stored user's own credentials are answered 200 with a token.\<close>

lemma login_success_run:
  "res (loginUser env0 login0 db0) =
     respond 200 (Session ''john@example.com'' (generateToken env0 ''650000000000000000000001''))"
  by (simp add: loginUser_def Let_def User_findOne_email_def throwing_def
      login0_def env0_def db0_def alice_def)

text \<open>
  C5, at two attempts the code tells apart. Neither carries a password. For the email of
  a stored user \<^verbatim>\<open>bcrypt.compare\<close> throws and the \<^verbatim>\<open>catch\<close> answers with the library's
  message; for an email no stored user has the answer is "Invalid credentials". The
  status is 400 both times, the error is not the same.
\<close>

theorem login_without_password_tells_apart:
  "''john@example.com'' \<in> email ` set (users db0)
   \<and> ''nobody@example.com'' \<notin> email ` set (users db0)
   \<and> res (loginUser env0
          (login0\<lparr>req_body := \<lparr>li_email = ''john@example.com'', li_password = None\<rparr>\<rparr>) db0)
       = respond 400 (Error ''Illegal arguments: undefined, string'')
   \<and> res (loginUser env0
          (login0\<lparr>req_body := \<lparr>li_email = ''nobody@example.com'', li_password = None\<rparr>\<rparr>) db0)
       = respond 400 (Error ''Invalid credentials'')"
  by (simp add: loginUser_def Let_def User_findOne_email_def throwing_def
      login0_def env0_def db0_def alice_def)

section \<open>The gate on the protected routes\<close>

lemma requireAuth_rejects_unverified:
  assumes "authorization r = Some segs" and "segs \<noteq> [Plain []]"
      and "jwt_verify (at_index segs 1) (SECRET e) (now e) = None"
  shows "requireAuth e r d =
           Rejected \<lparr>res = respond 401 (Error ''Request is not authorized''), store = d,
                     events = []\<rparr>"
  using assms by (simp add: requireAuth_def)

lemma requireAuth_missing_header:
  assumes "authorization r = None \<or> authorization r = Some [Plain []]"
  shows "requireAuth e r d =
           Rejected \<lparr>res = respond 401 (Error ''Authorization token required''), store = d,
                     events = []\<rparr>"
  using assms by (auto simp: requireAuth_def)

lemma bookRouter_protected:
  assumes "protected_route (req_method r) (path r)"
  shows "bookRouter e r d =
     (case requireAuth e r d of
        Rejected x \<Rightarrow> x
      | Next req' evs \<Rightarrow>
          (let x = (case (req_method req', path req') of
                      (POST, Root) \<Rightarrow> createBook e req' d
                    | (PUT, Id i) \<Rightarrow> updateBook e (req'\<lparr>params_bookId := i\<rparr>) d
                    | (DELETE, Id i) \<Rightarrow> deleteBook e (req'\<lparr>params_bookId := i\<rparr>) d
                    | _ \<Rightarrow> unknownEndpoint d [])
           in x\<lparr>events := evs @ events x\<rparr>))"
  using assms
  by (cases "req_method r"; cases "path r") (simp_all add: bookRouter_def)

text \<open>
  C1, as the code has it. On \<^verbatim>\<open>POST /\<close>, \<^verbatim>\<open>PUT /:bookId\<close> and \<^verbatim>\<open>DELETE /:bookId\<close>: a
  request without the \<^verbatim>\<open>Authorization\<close> header, or with an empty one, is answered 401
  with "Authorization token required"; a request whose header is there but has nothing,
  or the empty string, after its first space is answered 401 with "Request is not
  authorized". In both cases no handler is entered and no store call is made.
\<close>

theorem missing_header_rejected:
  "(protected_route (req_method r) (path r)
      \<and> (authorization r = None \<or> authorization r = Some [Plain []]) \<longrightarrow>
      bookRouter e r d =
        \<lparr>res = respond 401 (Error ''Authorization token required''), store = d,
         events = []\<rparr>)
   \<and> (protected_route (req_method r') (path r')
      \<and> authorization r' = Some segs \<and> segs \<noteq> [Plain []]
      \<and> (at_index segs 1 = None \<or> at_index segs 1 = Some (Plain [])) \<longrightarrow>
      bookRouter e' r' d' =
        \<lparr>res = respond 401 (Error ''Request is not authorized''), store = d',
         events = []\<rparr>)"
proof (intro conjI impI)
  assume "protected_route (req_method r) (path r)
      \<and> (authorization r = None \<or> authorization r = Some [Plain []])"
  then show "bookRouter e r d =
        \<lparr>res = respond 401 (Error ''Authorization token required''), store = d,
         events = []\<rparr>"
    by (simp add: bookRouter_protected requireAuth_missing_header)
next
  assume h: "protected_route (req_method r') (path r')
      \<and> authorization r' = Some segs \<and> segs \<noteq> [Plain []]
      \<and> (at_index segs 1 = None \<or> at_index segs 1 = Some (Plain []))"
  then have "jwt_verify (at_index segs 1) (SECRET e') (now e') = None"
    by auto
  with h show "bookRouter e' r' d' =
        \<lparr>res = respond 401 (Error ''Request is not authorized''), store = d',
         events = []\<rparr>"
    by (simp add: bookRouter_protected requireAuth_rejects_unverified)
qed

theorem missing_header_rejected_witness:
  "(protected_route POST Root
     \<and> bookRouter env0 (request0\<lparr>req_method := POST\<rparr>) db0 =
        \<lparr>res = respond 401 (Error ''Authorization token required''), store = db0,
         events = []\<rparr>)
   \<and> (protected_route DELETE (Id ''65000000000000000000000a'')
     \<and> at_index [Plain ''Bearer''] 1 = None
     \<and> bookRouter env0 (request0\<lparr>req_method := DELETE, path := Id ''65000000000000000000000a'',
                                  authorization := Some [Plain ''Bearer'']\<rparr>) db0 =
        \<lparr>res = respond 401 (Error ''Request is not authorized''), store = db0,
         events = []\<rparr>)"
  using missing_header_rejected
    [of "request0\<lparr>req_method := POST\<rparr>" env0 db0
        "request0\<lparr>req_method := DELETE, path := Id ''65000000000000000000000a'',
                  authorization := Some [Plain ''Bearer'']\<rparr>"
        "[Plain ''Bearer'']" env0 db0]
  by (simp add: request0_def at_index_def)

text \<open>
  The header \<^verbatim>\<open>Authorization: Bearer\<close> carries no credential, and the answer is not
  "Authorization token required".
\<close>

theorem no_credential_counterexample:
  "at_index [Plain ''Bearer''] 1 = None
   \<and> res (bookRouter env0 (request0\<lparr>req_method := POST, authorization := Some [Plain ''Bearer'']\<rparr>) db0)
       = respond 401 (Error ''Request is not authorized'')
   \<and> res (bookRouter env0 (request0\<lparr>req_method := POST, authorization := Some [Plain ''Bearer'']\<rparr>) db0)
       \<noteq> respond 401 (Error ''Authorization token required'')"
  by (simp add: bookRouter_def requireAuth_def at_index_def respond_def request0_def)

lemma requireAuth_unknown_user:
  assumes "authorization r = Some segs"
      and "jwt_verify (at_index segs 1) (SECRET e) (now e) = Some i"
      and "store_error e (FindUserById i) = None"
      and "i \<notin> uid ` set (users d)"
  shows "requireAuth e r d = Next (r\<lparr>req_user := None\<rparr>) [Store (FindUserById i)]"
proof -
  from assms(2) have "segs \<noteq> [Plain []]"
    by (auto simp: at_index_def)
  moreover from assms(4) have "find (\<lambda>u. uid u = i) (users d) = None"
    by (auto simp: find_None_iff)
  ultimately show ?thesis
    using assms(1-3) by (simp add: requireAuth_def User_findOne_id_def throwing_def)
qed

text \<open>
  C6, at a request the gate lets through. The token is signed with the secret and not
  expired, and its identifier belongs to no stored user: \<^verbatim>\<open>req.user\<close> becomes \<^verbatim>\<open>null\<close>
  and \<^verbatim>\<open>next()\<close> is called. \<^verbatim>\<open>deleteBook\<close> then deletes the book and answers 204;
  \<^verbatim>\<open>createBook\<close> is entered and answers 500.
\<close>

theorem unresolved_user_is_forwarded:
  "jwt_verify (Some (Compact ghost_token)) (SECRET env0) (now env0) = Some ghost
   \<and> ghost \<notin> uid ` set (users db0)
   \<and> bookRouter env0
       (request0\<lparr>req_method := DELETE, path := Id ''65000000000000000000000a'',
                 authorization := Some [Plain ''Bearer'', Compact ghost_token]\<rparr>) db0
     = \<lparr>res = respond 204 NoContent, store = db0\<lparr>books := [dune, emma]\<rparr>,
        events = [Store (FindUserById ghost), Handler ''deleteBook'',
                  Store (FindOneAndDeleteBook ''65000000000000000000000a'')]\<rparr>
   \<and> bookRouter env0
       (request0\<lparr>req_method := POST, authorization := Some [Plain ''Bearer'', Compact ghost_token]\<rparr>) db0
     = \<lparr>res = respond 500 (Error ''Server Error''), store = db0,
        events = [Store (FindUserById ghost), Handler ''createBook'']\<rparr>"
  by (simp add: bookRouter_def requireAuth_def at_index_def User_findOne_id_def throwing_def
      deleteBook_def createBook_def Book_findOneAndDelete_def
      generateToken_def jwt_sign_def expiresIn_3d_def ghost_def ghost_token_def fixtures)

section \<open>Creating a book\<close>

lemma find_uid_Some:
  "i \<in> uid ` set us \<Longrightarrow> map_option uid (find (\<lambda>u. uid u = i) us) = Some i"
  by (induction us) auto

lemma new_Book_owner: "new_Book e obj = Some b \<Longrightarrow> body_user_id obj = Some (user_id b)"
  by (auto simp: new_Book_def split: Option.bind_splits)

lemma createBook_ignores_payload_owner:
  "createBook e (r\<lparr>req_body := (req_body r)\<lparr>body_user_id := x\<rparr>\<rparr>) d = createBook e r d"
  by (cases "req_user r") (simp_all add: createBook_def)

lemma requireAuth_ignores_body:
  "requireAuth e (r\<lparr>req_body := b\<rparr>) d =
     (case requireAuth e r d of Rejected x \<Rightarrow> Rejected x
      | Next r' evs \<Rightarrow> Next (r'\<lparr>req_body := b\<rparr>) evs)"
  by (simp add: requireAuth_def split: option.splits sum.splits)

lemma requireAuth_next:
  assumes "authorization r = Some segs"
      and "jwt_verify (at_index segs 1) (SECRET e) (now e) = Some caller"
      and "store_error e (FindUserById caller) = None"
      and "caller \<in> uid ` set (users d)"
  shows "requireAuth e r d = Next (r\<lparr>req_user := Some caller\<rparr>) [Store (FindUserById caller)]"
proof -
  from assms(2) have "segs \<noteq> [Plain []]"
    by (auto simp: at_index_def)
  with assms show ?thesis
    by (simp add: requireAuth_def User_findOne_id_def throwing_def find_uid_Some)
qed

lemma createBook_saved:
  assumes "req_user r = Some caller"
      and "new_Book e ((req_body r)\<lparr>body_user_id := Some caller\<rparr>) = Some b"
      and "store_error e (SaveBook b) = None"
  shows "createBook e r d =
           \<lparr>res = respond 201 (BookJson b), store = d\<lparr>books := books d @ [b]\<rparr>,
            events = [Handler ''createBook'', Store (SaveBook b)]\<rparr>"
  using assms by (simp add: createBook_def Book_save_def throwing_def)

text \<open>
  C7. A \<^verbatim>\<open>POST /\<close> whose header carries a token that verifies to \<open>caller\<close>, a stored
  user, whose payload passes the schema's validation and whose store calls do not fail,
  is answered 201 with the created book; the book's \<^verbatim>\<open>user_id\<close> is \<open>caller\<close>, the book
  is added to the collection, and whatever \<^verbatim>\<open>user_id\<close> the payload carries makes no
  difference to the outcome.
\<close>

theorem created_book_owned_by_caller:
  assumes "req_method r = POST" and "path r = Root"
      and "authorization r = Some segs"
      and "jwt_verify (at_index segs 1) (SECRET e) (now e) = Some caller"
      and "store_error e (FindUserById caller) = None"
      and "caller \<in> uid ` set (users d)"
      and "new_Book e ((req_body r)\<lparr>body_user_id := Some caller\<rparr>) = Some b"
      and "store_error e (SaveBook b) = None"
  shows "res (bookRouter e r d) = respond 201 (BookJson b)
         \<and> user_id b = caller
         \<and> books (store (bookRouter e r d)) = books d @ [b]
         \<and> bookRouter e (r\<lparr>req_body := (req_body r)\<lparr>body_user_id := x\<rparr>\<rparr>) d = bookRouter e r d"
proof -
  have gate: "requireAuth e r d = Next (r\<lparr>req_user := Some caller\<rparr>) [Store (FindUserById caller)]"
    using assms(3-6) by (rule requireAuth_next)
  have run: "bookRouter e r d =
      \<lparr>res = respond 201 (BookJson b), store = d\<lparr>books := books d @ [b]\<rparr>,
       events = [Store (FindUserById caller), Handler ''createBook'', Store (SaveBook b)]\<rparr>"
    using assms(1,2,7,8)
    by (simp add: bookRouter_def gate
        createBook_saved [where caller = caller and b = b])
  have owner: "user_id b = caller"
    using new_Book_owner [OF assms(7)] by simp
  have same: "bookRouter e (r\<lparr>req_body := (req_body r)\<lparr>body_user_id := x\<rparr>\<rparr>) d = bookRouter e r d"
    using assms(1,2)
    by (simp add: bookRouter_def requireAuth_ignores_body gate createBook_def)
  from run owner same show ?thesis by simp
qed

theorem created_book_owned_by_caller_witness:
  "jwt_verify (at_index [Plain ''Bearer'', Compact alice_token] 1) (SECRET env0) (now env0)
     = Some (uid alice)
   \<and> uid alice \<in> uid ` set (users db0)
   \<and> body_user_id (req_body create0) = Some ghost
   \<and> ghost \<noteq> uid alice
   \<and> res (bookRouter env0 create0 db0) = respond 201 (BookJson hobbit)
   \<and> user_id hobbit = uid alice
   \<and> books (store (bookRouter env0 create0 db0)) = books db0 @ [hobbit]
   \<and> bookRouter env0 (create0\<lparr>req_body := (req_body create0)\<lparr>body_user_id := None\<rparr>\<rparr>) db0
       = bookRouter env0 create0 db0"
proof -
  have m: "req_method create0 = POST" and p: "path create0 = Root"
    and a: "authorization create0 = Some [Plain ''Bearer'', Compact alice_token]"
    by (simp_all add: create0_def)
  have v: "jwt_verify (at_index [Plain ''Bearer'', Compact alice_token] 1) (SECRET env0) (now env0)
             = Some (uid alice)"
    by (simp add: at_index_def alice_token_def generateToken_def jwt_sign_def expiresIn_3d_def
        env0_def alice_def)
  have s: "store_error env0 (FindUserById (uid alice)) = None"
    by (simp add: env0_def)
  have u: "uid alice \<in> uid ` set (users db0)"
    by (simp add: db0_def)
  have n: "new_Book env0 ((req_body create0)\<lparr>body_user_id := Some (uid alice)\<rparr>) = Some hobbit"
    by (simp add: new_Book_def create0_def hobbit_fields_def hobbit_def in_stock_def env0_def
        alice_def)
  have w: "store_error env0 (SaveBook hobbit) = None"
    by (simp add: env0_def)
  have g: "body_user_id (req_body create0) = Some ghost" "ghost \<noteq> uid alice"
    by (simp_all add: create0_def hobbit_fields_def ghost_def alice_def)
  from created_book_owned_by_caller [OF m p a v s u n w, of None] v u g show ?thesis
    by blast
qed

section \<open>Updating a book\<close>

lemma find_bid: "find (\<lambda>x. bid x = i) bs = Some b \<Longrightarrow> bid b = i"
  by (auto simp: find_Some_iff)

lemma find_replace_first:
  "find (\<lambda>x. bid x = i) bs = Some b \<Longrightarrow> bid b' = i \<Longrightarrow>
   find (\<lambda>x. bid x = i) (replace_first i b' bs) = Some b'"
  by (induction bs) (auto split: if_splits)

lemma updateBook_found:
  assumes "isValid e (params_bookId r)"
      and "castObjectId e (params_bookId r) = Some i"
      and "find (\<lambda>x. bid x = i) (books d) = Some b"
      and "store_error e (FindOneAndUpdateBook (params_bookId r) (req_body r)) = None"
  shows "updateBook e r d =
           \<lparr>res = respond 200 (BookJson (set_paths (req_body r) (now e) b)),
            store = d\<lparr>books := replace_first i
                                  (set_paths (req_body r) (now e) b) (books d)\<rparr>,
            events = [Handler ''updateBook'',
                      Store (FindOneAndUpdateBook (params_bookId r) (req_body r))]\<rparr>"
  using assms
  by (simp add: updateBook_def Let_def Book_findOneAndUpdate_def throwing_def)

text \<open>
  C8, as the code has it. \<^verbatim>\<open>updateBook\<close> on a stored book, with a store call that does
  not fail, answers 200 with the record after the update, which is also the record the
  store then holds under that identifier. Every top-level path the payload has takes the
  payload's value, \<^verbatim>\<open>availability\<close> as a whole and without merging; every path the
  payload does not have keeps its stored value, as do the identifier and the creation
  time.
\<close>

theorem update_sets_supplied_paths:
  assumes "isValid e (params_bookId r)"
      and "castObjectId e (params_bookId r) = Some i"
      and "find (\<lambda>x. bid x = i) (books d) = Some b"
      and "store_error e (FindOneAndUpdateBook (params_bookId r) (req_body r)) = None"
  shows "\<exists>b'. res (updateBook e r d) = respond 200 (BookJson b')
           \<and> find (\<lambda>x. bid x = i) (books (store (updateBook e r d))) = Some b'
           \<and> title b' = (case body_title (req_body r) of Some v \<Rightarrow> v | None \<Rightarrow> title b)
           \<and> author b' = (case body_author (req_body r) of Some v \<Rightarrow> v | None \<Rightarrow> author b)
           \<and> isbn b' = (case body_isbn (req_body r) of Some v \<Rightarrow> v | None \<Rightarrow> isbn b)
           \<and> publisher b' =
               (case body_publisher (req_body r) of Some v \<Rightarrow> v | None \<Rightarrow> publisher b)
           \<and> genre b' = (case body_genre (req_body r) of Some v \<Rightarrow> v | None \<Rightarrow> genre b)
           \<and> availability b' =
               (case body_availability (req_body r) of Some v \<Rightarrow> v | None \<Rightarrow> availability b)
           \<and> user_id b' = (case body_user_id (req_body r) of Some v \<Rightarrow> v | None \<Rightarrow> user_id b)
           \<and> bid b' = bid b \<and> createdAt b' = createdAt b"
proof -
  let ?b' = "set_paths (req_body r) (now e) b"
  have i: "bid ?b' = i"
    using find_bid [OF assms(3)] by (simp add: set_paths_def)
  have "find (\<lambda>x. bid x = i) (replace_first i ?b' (books d)) = Some ?b'"
    using assms(3) i by (rule find_replace_first)
  then show ?thesis
    by (intro exI [of _ ?b'])
       (simp add: updateBook_found [OF assms] set_paths_def split: option.splits)
qed

theorem update_sets_supplied_paths_witness:
  "isValid env0 (params_bookId lend)
   \<and> castObjectId env0 (params_bookId lend) = Some (params_bookId lend)
   \<and> find (\<lambda>x. bid x = params_bookId lend) (books db0) = Some gatsby
   \<and> (\<exists>b'. res (updateBook env0 lend db0) = respond 200 (BookJson b')
         \<and> find (\<lambda>x. bid x = params_bookId lend) (books (store (updateBook env0 lend db0))) = Some b'
         \<and> title b' = ''The Great Gatsby''
         \<and> availability b' =
             \<lparr>isAvailable = Some False, dueDate = Some ''2026-03-15'', borrower = None\<rparr>
         \<and> bid b' = bid gatsby)"
proof -
  have v: "isValid env0 (params_bookId lend)"
    by (simp add: lend_def fixtures)
  have c: "castObjectId env0 (params_bookId lend) = Some (params_bookId lend)"
    by (simp add: lend_def fixtures)
  have f: "find (\<lambda>x. bid x = params_bookId lend) (books db0) = Some gatsby"
    by (simp add: lend_def db0_def gatsby_def)
  have s: "store_error env0 (FindOneAndUpdateBook (params_bookId lend) (req_body lend)) = None"
    by (simp add: env0_def)
  from update_sets_supplied_paths [OF v c f s] obtain b' where
    b': "res (updateBook env0 lend db0) = respond 200 (BookJson b')"
        "find (\<lambda>x. bid x = params_bookId lend) (books (store (updateBook env0 lend db0))) = Some b'"
        "title b' = (case body_title (req_body lend) of Some v \<Rightarrow> v | None \<Rightarrow> title gatsby)"
        "availability b' =
           (case body_availability (req_body lend) of Some v \<Rightarrow> v | None \<Rightarrow> availability gatsby)"
        "bid b' = bid gatsby"
    by blast
  have "title b' = ''The Great Gatsby''"
    using b'(3) by (simp add: lend_def no_fields_def gatsby_def)
  moreover have "availability b' =
      \<lparr>isAvailable = Some False, dueDate = Some ''2026-03-15'', borrower = None\<rparr>"
    using b'(4) by (simp add: lend_def no_fields_def)
  ultimately show ?thesis
    using v c f b'(1,2,5) by blast
qed

text \<open>
  An update whose payload has a title only: the author and the availability of the
  stored record are still there afterwards, so the payload did not replace the record.
\<close>

theorem update_full_replace_counterexample:
  "books db0 = [gatsby, dune, emma]
   \<and> bid gatsby = params_bookId retitle
   \<and> body_author (req_body retitle) = None
   \<and> body_availability (req_body retitle) = None
   \<and> res (updateBook env0 retitle db0) =
       respond 200 (BookJson (gatsby\<lparr>title := ''Gatsby'', updatedAt := 1700000000000\<rparr>))
   \<and> author (gatsby\<lparr>title := ''Gatsby'', updatedAt := 1700000000000\<rparr>) = ''F. Scott Fitzgerald''
   \<and> availability (gatsby\<lparr>title := ''Gatsby'', updatedAt := 1700000000000\<rparr>) = in_stock"
  by (simp add: updateBook_def Let_def Book_findOneAndUpdate_def throwing_def set_paths_def
      retitle_def fixtures)

section \<open>Tokens\<close>

text \<open>
  C9. The token \<^verbatim>\<open>generateToken\<close> makes for an identifier embeds that identifier, is
  issued at the clock's second, expires three days (259200 seconds) later and is signed
  with \<^verbatim>\<open>SECRET\<close>. Verification under the same secret yields the identifier at every
  time before the expiry and fails from the expiry on.
\<close>

theorem generateToken_three_days:
  "tok_id (generateToken e i) = i
   \<and> tok_iat (generateToken e i) = now e div 1000
   \<and> tok_exp (generateToken e i) = tok_iat (generateToken e i) + 3 * 24 * 60 * 60
   \<and> tok_key (generateToken e i) = SECRET e
   \<and> (t div 1000 < tok_exp (generateToken e i) \<longrightarrow>
        jwt_verify (Some (Compact (generateToken e i))) (SECRET e) t = Some i)
   \<and> (tok_exp (generateToken e i) \<le> t' div 1000 \<longrightarrow>
        jwt_verify (Some (Compact (generateToken e i))) (SECRET e) t' = None)"
  by (simp add: generateToken_def jwt_sign_def expiresIn_3d_def)

theorem generateToken_three_days_witness:
  "tok_id (generateToken env0 ghost) = ghost
   \<and> tok_iat (generateToken env0 ghost) = 1700000000
   \<and> tok_exp (generateToken env0 ghost) = 1700259200
   \<and> tok_key (generateToken env0 ghost) = SECRET env0
   \<and> jwt_verify (Some (Compact (generateToken env0 ghost))) (SECRET env0) 1700259199999 = Some ghost
   \<and> jwt_verify (Some (Compact (generateToken env0 ghost))) (SECRET env0) 1700259200000 = None"
  using generateToken_three_days [of env0 ghost 1700259199999 1700259200000]
  by (simp add: env0_def)

end
